theory Spec2Isabelle
  imports Main "HOL-Library.Word" "HOL-Library.Signed_Division"
begin

section \<open>The budget engine of masternode-budget.cpp\<close>

text \<open>
  A shallow embedding of the governance code in \<^verbatim>\<open>src/masternode-budget.cpp\<close>.
  Every C++ function that is modelled keeps its name (prefixed by its class where two
  classes share a method name). Mutation is explicit state passing, out-parameters are
  returned, and everything the file reads from outside itself (the chain, the masternode
  directory, the clocks, the consensus parameters and the constants of the header
  \<^verbatim>\<open>masternode-budget.h\<close>) is a field of the record \<open>env\<close>.

  Integers: \<^verbatim>\<open>int\<close> (heights, counts) and \<^verbatim>\<open>CAmount\<close> are modelled by \<open>int\<close>, in the
  range where the C++ arithmetic does not overflow (signed overflow is undefined there);
  \<^verbatim>\<open>/\<close> and \<^verbatim>\<open>%\<close> are the truncating \<open>sdiv\<close> and \<open>smod\<close>. The vote times, which arrive
  unchecked from the wire and are subtracted, are 64-bit words with the wrap-around of
  the machine.
\<close>

subsection \<open>Data\<close>

type_synonym uint256 = "256 word"
type_synonym CAmount = int
type_synonym CScript = "8 word list"
type_synonym int64 = "64 word"

text \<open>\<^verbatim>\<open>std::map\<close>: the entries in ascending key order, as the iteration visits them.\<close>

type_synonym ('k, 'v) std_map = "('k \<times> 'v) list"

definition count :: "('k, 'v) std_map \<Rightarrow> 'k \<Rightarrow> bool" where
  "count m k = (map_of m k \<noteq> None)"

text \<open>\<^verbatim>\<open>m[k] = v\<close>: overwrite the entry of \<open>k\<close>, or insert it at its place in the order.\<close>

fun assign :: "'k::linorder \<Rightarrow> 'v \<Rightarrow> ('k, 'v) std_map \<Rightarrow> ('k, 'v) std_map" where
  "assign k v [] = [(k, v)]"
| "assign k v ((k', v') # m) =
     (if k < k' then (k, v) # (k', v') # m
      else if k = k' then (k, v) # m
      else (k', v') # assign k v m)"

text \<open>\<^verbatim>\<open>m.emplace(k, v)\<close>: insert only when the key is absent.\<close>

definition emplace :: "'k::linorder \<Rightarrow> 'v \<Rightarrow> ('k, 'v) std_map \<Rightarrow> ('k, 'v) std_map" where
  "emplace k v m = (if count m k then m else assign k v m)"

record CTxOut =
  nValue :: CAmount
  scriptPubKey :: CScript

record CTransaction =
  vout :: "CTxOut list"
  nLockTime :: "32 word"

record CBlockIndex =
  nHeight :: int
  bi_nTime :: "32 word"

record COutPoint =
  op_hash :: uint256
  op_n :: "32 word"

record CTxBudgetPayment =
  nProposalHash :: uint256
  payee :: CScript
  pay_nAmount :: CAmount

record CFinalizedBudgetVote =
  fv_fValid :: bool
  fv_fSynced :: bool
  fv_vin :: COutPoint
  nBudgetHash :: uint256
  fv_nTime :: int64

record CFinalizedBudget =
  fAutoChecked :: bool
  fb_fValid :: bool
  fb_strInvalid :: string
  fb_mapVotes :: "(uint256, CFinalizedBudgetVote) std_map"
  strBudgetName :: string
  fb_nBlockStart :: int
  vecBudgetPayments :: "CTxBudgetPayment list"
  fb_nFeeTXHash :: uint256
  strProposals :: string
  fb_nTime :: int64
  mapPayment_History :: "(uint256, int) std_map"

datatype TrxValidationStatus = InValid | Valid | DoublePayment | VoteThreshold

datatype VoteDirection = VOTE_ABSTAIN | VOTE_YES | VOTE_NO

record CBudgetVote =
  v_fValid :: bool
  v_fSynced :: bool
  v_nProposalHash :: uint256
  nVote :: VoteDirection
  v_nTime :: int64
  v_vin :: COutPoint

record CBudgetProposal =
  nAlloted :: CAmount
  fValid :: bool
  strInvalid :: string
  mapVotes :: "(uint256, CBudgetVote) std_map"
  strProposalName :: string
  strURL :: string
  nBlockStart :: int
  nBlockEnd :: int
  address :: CScript
  nAmount :: CAmount
  nFeeTXHash :: uint256
  nTime :: int64

text \<open>Modelled from the spec: \<^verbatim>\<open>COIN\<close> of \<^verbatim>\<open>amount.h\<close>, 100 000 000 of the smallest unit.\<close>

definition COIN :: CAmount where
  "COIN = 100000000"

text \<open>
  What the file reads from its surroundings. \<open>CountEnabled\<close> is
  \<^verbatim>\<open>mnodeman.CountEnabled(ActiveProtocol())\<close>, the number of entries of the masternode list
  that are enabled: a count, hence a natural number. The hash functions stand for the
  \<^verbatim>\<open>CHashWriter\<close> serialisations of the immutable fields; \<open>rand\<close> gives the value of the
  \<open>i\<close>-th call of \<^verbatim>\<open>rand()\<close>; the wallet, the signer and the sync status answer through
  the remaining fields.
\<close>

record env =
  GetTransaction :: "uint256 \<Rightarrow> (CTransaction \<times> uint256) option"
  GetIXConfirmations :: "uint256 \<Rightarrow> int"
  mapBlockIndex :: "uint256 \<Rightarrow> CBlockIndex option"
  chainActive_Contains :: "CBlockIndex \<Rightarrow> bool"
  chainActive_Height :: int
  IsNormalPaymentScript :: "CScript \<Rightarrow> bool"
  IsUnspendable :: "CScript \<Rightarrow> bool"
  IsPayToScriptHash :: "CScript \<Rightarrow> bool"
  nBudgetCycleBlocks :: int
  nBudgetFeeConfirmations :: int
  nProposalEstablishmentTime :: int
  IsTestnet :: bool
  UpgradeActive_POS :: "int \<Rightarrow> bool"
  UpgradeActive_ZC_V2 :: "int \<Rightarrow> bool"
  BUDGET_FEE_TX :: CAmount
  PROPOSAL_FEE_TX :: CAmount
  BUDGET_VOTE_UPDATE_MIN :: int64
  CountEnabled :: nat
  mnodeman_Find :: "COutPoint \<Rightarrow> bool"
  COutPoint_GetHash :: "COutPoint \<Rightarrow> uint256"
  GetTime :: int64
  GetAdjustedTime :: int64
  GetBlockValue :: "int \<Rightarrow> CAmount"
  Hash_Proposal :: "string \<Rightarrow> string \<Rightarrow> int \<Rightarrow> int \<Rightarrow> CAmount \<Rightarrow> CScript \<Rightarrow> uint256"
  Hash_FinalizedBudget :: "string \<Rightarrow> int \<Rightarrow> CTxBudgetPayment list \<Rightarrow> uint256"
  Hash_FinalizedBudgetVote :: "COutPoint \<Rightarrow> uint256 \<Rightarrow> int64 \<Rightarrow> uint256"
  Hash_BudgetVote :: "COutPoint \<Rightarrow> uint256 \<Rightarrow> VoteDirection \<Rightarrow> int64 \<Rightarrow> uint256"
  CBudgetVote_CheckSignature :: "CBudgetVote \<Rightarrow> bool"
  CFinalizedBudgetVote_CheckSignature :: "CFinalizedBudgetVote \<Rightarrow> bool"
  uint256_ToString :: "uint256 \<Rightarrow> string"
  TRY_LOCK_cs_proposals :: bool
  TRY_LOCK_cs_budgets :: bool
  fLiteMode :: bool
  fMasterNode :: bool
  activeMasternode_vin :: "COutPoint option"
  strBudgetMode :: string
  rand :: "nat \<Rightarrow> nat"
  GetKeysFromSecret_ok :: bool
  Sign_ok :: bool
  CreateBudgetFeeTX :: "uint256 \<Rightarrow> uint256 option"
  CommitTransaction_ok :: "uint256 \<Rightarrow> bool"
  masternodeSync_IsBlockchainSynced :: bool
  masternodeSync_IsSynced :: bool
  masternodeSync_PastBudget :: bool

text \<open>
  The manager. The seen maps hold broadcast objects, which are the proposal and the
  finalized budget themselves (the broadcast classes add no data). The last three fields
  are not members of \<^verbatim>\<open>CBudgetManager\<close> but the other mutable state of the file: the
  global \<^verbatim>\<open>askedForSourceProposalOrBudget\<close>, the static \<^verbatim>\<open>nSubmittedHeight\<close> of
  \<^verbatim>\<open>SubmitFinalBudget\<close>, and the number of calls of \<^verbatim>\<open>rand()\<close> made so far.
\<close>

record CBudgetManager =
  mapProposals :: "(uint256, CBudgetProposal) std_map"
  mapFinalizedBudgets :: "(uint256, CFinalizedBudget) std_map"
  mapSeenProposals :: "(uint256, CBudgetProposal) std_map"
  mapSeenFinalizedBudgets :: "(uint256, CFinalizedBudget) std_map"
  mapSeenProposalVotes :: "(uint256, CBudgetVote) std_map"
  mapSeenFinalizedBudgetVotes :: "(uint256, CFinalizedBudgetVote) std_map"
  mapOrphanProposalVotes :: "(uint256, CBudgetVote) std_map"
  mapOrphanFinalizedBudgetVotes :: "(uint256, CFinalizedBudgetVote) std_map"
  vecImmatureProposals :: "CBudgetProposal list"
  vecImmatureFinalizedBudgets :: "CFinalizedBudget list"
  mapCollateralTxids :: "(uint256, uint256) std_map"
  nBestHeight :: int
  askedForSourceProposalOrBudget :: "(uint256, int64) std_map"
  nSubmittedHeight :: int
  nRandCalls :: nat

subsection \<open>Finalized budgets: accessors\<close>

text \<open>
  Modelled from the spec: \<^verbatim>\<open>CFinalizedBudget::GetBlockEnd\<close> and
  \<^verbatim>\<open>CFinalizedBudget::GetVoteCount\<close> are inline in the header \<^verbatim>\<open>masternode-budget.h\<close>,
  which is not among the sources. A finalized budget holds one payment per block from
  \<open>start_block\<close> on, so its last block is \<open>start_block + size - 1\<close> (the source's own
  comment in \<^verbatim>\<open>UpdateValid\<close> equates \<^verbatim>\<open>GetBlockEnd() - nBlockStart > 100\<close> with a bound on the
  number of payments); its vote count is the number of votes it retains.
\<close>

definition GetBlockEnd :: "CFinalizedBudget \<Rightarrow> int" where
  "GetBlockEnd fb = fb_nBlockStart fb + (int (length (vecBudgetPayments fb)) - 1)"

definition GetVoteCount :: "CFinalizedBudget \<Rightarrow> int" where
  "GetVoteCount fb = int (length (fb_mapVotes fb))"

subsection \<open>The manager: choosing the finalized budget\<close>

text \<open>The loop of \<^verbatim>\<open>GetBudgetWithHighestVoteCount\<close>, over the entries in map order.\<close>

fun GetBudgetWithHighestVoteCount_loop ::
  "int \<Rightarrow> (uint256, CFinalizedBudget) std_map \<Rightarrow> int \<Rightarrow> CFinalizedBudget option
    \<Rightarrow> CFinalizedBudget option" where
  "GetBudgetWithHighestVoteCount_loop chainHeight [] highestVoteCount pHighestBudget =
     pHighestBudget"
| "GetBudgetWithHighestVoteCount_loop chainHeight (it # rest) highestVoteCount pHighestBudget =
     (let pfinalizedBudget = snd it;
          voteCount = GetVoteCount pfinalizedBudget
      in if voteCount > highestVoteCount \<and>
            chainHeight \<ge> fb_nBlockStart pfinalizedBudget \<and>
            chainHeight \<le> GetBlockEnd pfinalizedBudget
         then GetBudgetWithHighestVoteCount_loop chainHeight rest voteCount
                (Some pfinalizedBudget)
         else GetBudgetWithHighestVoteCount_loop chainHeight rest highestVoteCount
                pHighestBudget)"

definition GetBudgetWithHighestVoteCount ::
  "CBudgetManager \<Rightarrow> int \<Rightarrow> CFinalizedBudget option" where
  "GetBudgetWithHighestVoteCount m chainHeight =
     GetBudgetWithHighestVoteCount_loop chainHeight (mapFinalizedBudgets m) 0 None"

definition GetHighestVoteCount :: "CBudgetManager \<Rightarrow> int \<Rightarrow> int" where
  "GetHighestVoteCount m chainHeight =
     (case GetBudgetWithHighestVoteCount m chainHeight of
        Some pbudget \<Rightarrow> GetVoteCount pbudget
      | None \<Rightarrow> - 1)"

text \<open>
  \<^verbatim>\<open>IsBudgetPaymentBlock(nBlockHeight, nHighestCount, nFivePercent)\<close>: the result and the
  two out-parameters.
\<close>

definition IsBudgetPaymentBlock3 :: "env \<Rightarrow> CBudgetManager \<Rightarrow> int \<Rightarrow> bool \<times> int \<times> int" where
  "IsBudgetPaymentBlock3 e m nBlockHeight =
     (let nHighestCount = GetHighestVoteCount m nBlockHeight;
          nFivePercent = int (CountEnabled e) sdiv 20
      in (nHighestCount > nFivePercent, nHighestCount, nFivePercent))"

definition IsBudgetPaymentBlock :: "env \<Rightarrow> CBudgetManager \<Rightarrow> int \<Rightarrow> bool" where
  "IsBudgetPaymentBlock e m nBlockHeight = fst (IsBudgetPaymentBlock3 e m nBlockHeight)"

text \<open>A finalized budget covers a height when \<open>start \<le> h \<le> end\<close>.\<close>

definition covers :: "CFinalizedBudget \<Rightarrow> int \<Rightarrow> bool" where
  "covers fb h = (fb_nBlockStart fb \<le> h \<and> h \<le> GetBlockEnd fb)"

subsection \<open>Finalized budgets: validating a block transaction\<close>

text \<open>
  \<^verbatim>\<open>IsPaidAlready\<close> is a const method that writes the mutable member
  \<^verbatim>\<open>mapPayment_History\<close>: the model returns the budget with its new history. The erase loop
  keeps the entries whose height is neither below the start nor above the end.
\<close>

definition IsPaidAlready :: "CFinalizedBudget \<Rightarrow> uint256 \<Rightarrow> int \<Rightarrow> bool \<times> CFinalizedBudget" where
  "IsPaidAlready fb nProposalHash' nBlockHeight =
     (let kept = filter (\<lambda>it. \<not> (snd it < fb_nBlockStart fb \<or> snd it > GetBlockEnd fb))
                   (mapPayment_History fb)
      in if \<not> count kept nProposalHash'
         then (False, fb\<lparr>mapPayment_History := emplace nProposalHash' nBlockHeight kept\<rparr>)
         else (True, fb\<lparr>mapPayment_History := kept\<rparr>))"

text \<open>The search of the outputs, from the last one backwards.\<close>

definition payment_found :: "CTxBudgetPayment \<Rightarrow> CTransaction \<Rightarrow> bool" where
  "payment_found p txNew =
     list_ex (\<lambda>out. payee p = scriptPubKey out \<and> pay_nAmount p = nValue out) (rev (vout txNew))"

definition CFinalizedBudget_IsTransactionValid ::
  "CFinalizedBudget \<Rightarrow> CTransaction \<Rightarrow> int \<Rightarrow> TrxValidationStatus \<times> CFinalizedBudget" where
  "CFinalizedBudget_IsTransactionValid fb txNew nBlockHeight =
     (let nBlockEnd = GetBlockEnd fb
      in if nBlockHeight > nBlockEnd then (InValid, fb)
         else if nBlockHeight < fb_nBlockStart fb then (InValid, fb)
         else
           (let nCurrentBudgetPayment = nBlockHeight - fb_nBlockStart fb
            in if nCurrentBudgetPayment > int (length (vecBudgetPayments fb)) - 1
               then (InValid, fb)
               else
                 (let p = vecBudgetPayments fb ! nat nCurrentBudgetPayment;
                      paid = IsPaidAlready fb (nProposalHash p) nBlockHeight
                  in if fst paid then (DoublePayment, snd paid)
                     else if payment_found p txNew then (Valid, snd paid)
                     else (InValid, snd paid))))"


subsection \<open>The manager: validating a block transaction, filling the payee\<close>








subsection \<open>Votes\<close>

text \<open>
  \<^verbatim>\<open>AddOrUpdateVote\<close>, on proposals and on finalized budgets: the result, \<^verbatim>\<open>strError\<close>
  and the object. The comparisons are those of \<^verbatim>\<open>int64_t\<close>: signed, on the wrapped
  difference \<^verbatim>\<open>voteTime - oldTime\<close> and the wrapped sum \<^verbatim>\<open>GetTime() + (60 * 60)\<close>. The
  messages are the format strings of the source, arguments not filled in.
\<close>

definition CBudgetProposal_AddOrUpdateVote ::
  "env \<Rightarrow> CBudgetProposal \<Rightarrow> CBudgetVote \<Rightarrow> string \<Rightarrow> bool \<times> string \<times> CBudgetProposal" where
  "CBudgetProposal_AddOrUpdateVote e p vote strError =
     (let hash = COutPoint_GetHash e (v_vin vote);
          voteTime = v_nTime vote;
          early =
            (case map_of (mapVotes p) hash of
               None \<Rightarrow> None
             | Some old \<Rightarrow>
                 (let oldTime = v_nTime old
                  in if sint oldTime > sint voteTime
                     then Some ''new vote older than existing vote - %s''
                     else if sint (voteTime - oldTime) < sint (BUDGET_VOTE_UPDATE_MIN e)
                     then Some ''time between votes is too soon - %s - %lli sec < %lli sec''
                     else None))
      in case early of
           Some msg \<Rightarrow> (False, msg, p)
         | None \<Rightarrow>
             if sint voteTime > sint (GetTime e + 60 * 60)
             then (False, ''new vote is too far ahead of current time - %s - nTime %lli - Max Time %lli'', p)
             else (True, strError, p\<lparr>mapVotes := assign hash vote (mapVotes p)\<rparr>))"

definition CFinalizedBudget_AddOrUpdateVote ::
  "env \<Rightarrow> CFinalizedBudget \<Rightarrow> CFinalizedBudgetVote \<Rightarrow> string
    \<Rightarrow> bool \<times> string \<times> CFinalizedBudget" where
  "CFinalizedBudget_AddOrUpdateVote e fb vote strError =
     (let hash = COutPoint_GetHash e (fv_vin vote);
          voteTime = fv_nTime vote;
          early =
            (case map_of (fb_mapVotes fb) hash of
               None \<Rightarrow> None
             | Some old \<Rightarrow>
                 (let oldTime = fv_nTime old
                  in if sint oldTime > sint voteTime
                     then Some ''new vote older than existing vote - %s''
                     else if sint (voteTime - oldTime) < sint (BUDGET_VOTE_UPDATE_MIN e)
                     then Some ''time between votes is too soon - %s - %lli sec < %lli sec''
                     else None))
      in case early of
           Some msg \<Rightarrow> (False, msg, fb)
         | None \<Rightarrow>
             if sint voteTime > sint (GetTime e + 60 * 60)
             then (False, ''new vote is too far ahead of current time - %s - nTime %lli - Max Time %lli'', fb)
             else (True, strError, fb\<lparr>fb_mapVotes := assign hash vote (fb_mapVotes fb)\<rparr>))"

subsection \<open>The collateral validator\<close>

text \<open>
  Modelled from the spec: the script \<^verbatim>\<open>CScript() << OP_RETURN << ToByteVector(hash)\<close> is
  \<open>OP_RETURN\<close> (0x6a) followed by the push of the 32 bytes of the hash (length byte 0x20, then
  the bytes, least significant first); the operators are those of \<^verbatim>\<open>script.h\<close>.
\<close>

definition ToByteVector :: "uint256 \<Rightarrow> 8 word list" where
  "ToByteVector h = map (\<lambda>i. ucast (drop_bit (8 * i) h)) [0..<32]"

definition findScript :: "uint256 \<Rightarrow> CScript" where
  "findScript nExpectedHash = [106, 32] @ ToByteVector nExpectedHash"

text \<open>
  The loop over the outputs: \<open>None\<close> is the return from inside the loop at an output that is
  neither a normal payment nor unspendable; otherwise the flag \<^verbatim>\<open>foundOpReturn\<close>.
\<close>

fun collateral_outputs ::
  "env \<Rightarrow> bool \<Rightarrow> CScript \<Rightarrow> CTxOut list \<Rightarrow> bool \<Rightarrow> bool option" where
  "collateral_outputs e fBudgetFinalization fs [] foundOpReturn = Some foundOpReturn"
| "collateral_outputs e fBudgetFinalization fs (out # outs) foundOpReturn =
     (if \<not> IsNormalPaymentScript e (scriptPubKey out) \<and> \<not> IsUnspendable e (scriptPubKey out)
      then None
      else if fBudgetFinalization
      then (if scriptPubKey out = fs \<and> nValue out \<ge> BUDGET_FEE_TX e
            then collateral_outputs e fBudgetFinalization fs outs True
            else collateral_outputs e fBudgetFinalization fs outs foundOpReturn)
      else (if scriptPubKey out = fs \<and> nValue out \<ge> PROPOSAL_FEE_TX e
            then collateral_outputs e fBudgetFinalization fs outs True
            else collateral_outputs e fBudgetFinalization fs outs foundOpReturn))"

text \<open>The confirmations and the block time, as the second half of the function reads them.\<close>

definition collateral_confirmations ::
  "env \<Rightarrow> uint256 \<Rightarrow> uint256 \<Rightarrow> int64 \<Rightarrow> int \<times> int64" where
  "collateral_confirmations e nTxCollateralHash nBlockHash nTime' =
     (let conf = GetIXConfirmations e nTxCollateralHash
      in if nBlockHash \<noteq> 0
         then (case mapBlockIndex e nBlockHash of
                 None \<Rightarrow> (conf, nTime')
               | Some pindex \<Rightarrow>
                   if chainActive_Contains e pindex
                   then (conf + (chainActive_Height e - nHeight pindex + 1), ucast (bi_nTime pindex))
                   else (conf, nTime'))
         else (conf, nTime'))"

text \<open>
  \<^verbatim>\<open>IsBudgetCollateralValid\<close>: the result and the three reference parameters
  \<^verbatim>\<open>strError\<close>, \<^verbatim>\<open>nTime\<close>, \<^verbatim>\<open>nConf\<close> as they are on return. A message is the format
  string of the source, arguments not filled in.
\<close>

definition IsBudgetCollateralValid ::
  "env \<Rightarrow> uint256 \<Rightarrow> uint256 \<Rightarrow> string \<Rightarrow> int64 \<Rightarrow> int \<Rightarrow> bool
    \<Rightarrow> bool \<times> string \<times> int64 \<times> int" where
  "IsBudgetCollateralValid e nTxCollateralHash nExpectedHash strError nTime' nConf fBudgetFinalization =
     (case GetTransaction e nTxCollateralHash of
        None \<Rightarrow> (False, ''Can't find collateral tx %s'', nTime', nConf)
      | Some found \<Rightarrow>
          (let txCollateral = fst found; nBlockHash = snd found
           in if length (vout txCollateral) < 1 then (False, strError, nTime', nConf)
              else if nLockTime txCollateral \<noteq> 0 then (False, strError, nTime', nConf)
              else
                (case collateral_outputs e fBudgetFinalization (findScript nExpectedHash)
                        (vout txCollateral) False of
                   None \<Rightarrow> (False, ''Invalid Script %s'', nTime', nConf)
                 | Some foundOpReturn \<Rightarrow>
                     if \<not> foundOpReturn then (False, ''Couldn't find opReturn %s in %s'', nTime', nConf)
                     else
                       (let c = collateral_confirmations e nTxCollateralHash nBlockHash nTime';
                            conf = fst c;
                            nRequiredConfs = nBudgetFeeConfirmations e
                        in if conf \<ge> nRequiredConfs then (True, strError, snd c, conf)
                           else (False, ''Collateral requires at least %d confirmations - %d confirmations'', snd c, conf)))))"

subsection \<open>The total budget of a cycle\<close>

definition GetTotalBudget :: "env \<Rightarrow> int \<Rightarrow> CAmount" where
  "GetTotalBudget e nHeight' =
     (if IsTestnet e then (((500 * COIN) sdiv 100) * 10) * 146
      else
        (let isPoSActive = UpgradeActive_POS e nHeight';
             nSubsidy =
               (if nHeight' \<ge> 151200 \<and> \<not> isPoSActive then 50 * COIN
                else if isPoSActive \<and> nHeight' \<le> 302399 then 50 * COIN
                else if nHeight' \<le> 345599 \<and> nHeight' \<ge> 302400 then 45 * COIN
                else if nHeight' \<le> 388799 \<and> nHeight' \<ge> 345600 then 40 * COIN
                else if nHeight' \<le> 431999 \<and> nHeight' \<ge> 388800 then 35 * COIN
                else if nHeight' \<le> 475199 \<and> nHeight' \<ge> 432000 then 30 * COIN
                else if nHeight' \<le> 518399 \<and> nHeight' \<ge> 475200 then 25 * COIN
                else if nHeight' \<le> 561599 \<and> nHeight' \<ge> 518400 then 20 * COIN
                else if nHeight' \<le> 604799 \<and> nHeight' \<ge> 561600 then 15 * COIN
                else if nHeight' \<le> 647999 \<and> nHeight' \<ge> 604800 then 10 * COIN
                else if UpgradeActive_ZC_V2 e nHeight' then 10 * COIN
                else 5 * COIN)
         in if nHeight' \<le> 172800 then 648000 * COIN
            else (((nSubsidy sdiv 100) * 10) * 1440) * 30))"

subsection \<open>Finalized budgets: validity\<close>

text \<open>
  Modelled from the spec: \<^verbatim>\<open>CFinalizedBudget::GetHash\<close> (header) hashes the immutable fields
  of the budget; the collateral and the votes are not part of it.
\<close>

definition CFinalizedBudget_GetHash :: "env \<Rightarrow> CFinalizedBudget \<Rightarrow> uint256" where
  "CFinalizedBudget_GetHash e fb =
     Hash_FinalizedBudget e (strBudgetName fb) (fb_nBlockStart fb) (vecBudgetPayments fb)"

definition GetTotalPayout :: "CFinalizedBudget \<Rightarrow> CAmount" where
  "GetTotalPayout fb = fold (\<lambda>vecBudgetPayment ret. ret + pay_nAmount vecBudgetPayment)
                         (vecBudgetPayments fb) 0"

definition fb_label :: "CFinalizedBudget \<Rightarrow> string" where
  "fb_label fb = ''Budget '' @ strBudgetName fb @ '' ('' @ strProposals fb @ '')''"

definition CFinalizedBudget_UpdateValid ::
  "env \<Rightarrow> CFinalizedBudget \<Rightarrow> int \<Rightarrow> bool \<Rightarrow> bool \<times> CFinalizedBudget" where
  "CFinalizedBudget_UpdateValid e fb nCurrentHeight fCheckCollateral =
     (let fb0 = fb\<lparr>fb_fValid := False\<rparr>;
          nBlocksPerCycle = nBudgetCycleBlocks e
      in if fb_nBlockStart fb smod nBlocksPerCycle \<noteq> 0
         then (False, fb0\<lparr>fb_strInvalid := ''Invalid BlockStart''\<rparr>)
         else if GetBlockEnd fb - fb_nBlockStart fb > 100
         then (False, fb0\<lparr>fb_strInvalid := ''Invalid BlockEnd''\<rparr>)
         else if int (length (vecBudgetPayments fb)) > 100
         then (False, fb0\<lparr>fb_strInvalid := ''Invalid budget payments count (too many)''\<rparr>)
         else if strBudgetName fb = []
         then (False, fb0\<lparr>fb_strInvalid := ''Invalid Budget Name''\<rparr>)
         else if fb_nBlockStart fb = 0
         then (False, fb0\<lparr>fb_strInvalid := fb_label fb @ '' Invalid BlockStart == 0''\<rparr>)
         else if fb_nFeeTXHash fb = 0
         then (False, fb0\<lparr>fb_strInvalid := fb_label fb @ '' Invalid FeeTx == 0''\<rparr>)
         else if GetTotalPayout fb > GetTotalBudget e (fb_nBlockStart fb)
         then (False, fb0\<lparr>fb_strInvalid := fb_label fb @ '' Invalid Payout (more than max)''\<rparr>)
         else
           (let cv = (if fCheckCollateral
                      then IsBudgetCollateralValid e (fb_nFeeTXHash fb) (CFinalizedBudget_GetHash e fb)
                             [] (fb_nTime fb) 0 True
                      else (True, [], fb_nTime fb, 0));
                fb1 = fb0\<lparr>fb_nTime := fst (snd (snd cv))\<rparr>
            in if \<not> fst cv
               then (False, fb1\<lparr>fb_strInvalid :=
                              fb_label fb @ '' Invalid Collateral : '' @ fst (snd cv)\<rparr>)
               else
                 (let nBlockStart' = nCurrentHeight - nCurrentHeight smod nBlocksPerCycle
                                       + nBlocksPerCycle;
                      nMaxAge = nBlockStart' - 2 * nBlocksPerCycle
                  in if GetBlockEnd fb < nMaxAge
                     then (False, fb1\<lparr>fb_strInvalid := fb_label fb @ '' (ends at block %ld) too old and obsolete''\<rparr>)
                     else (True, fb1\<lparr>fb_fValid := True, fb_strInvalid := []\<rparr>))))"

subsection \<open>Proposals\<close>

text \<open>
  Modelled from the spec: \<^verbatim>\<open>GetYeas\<close>, \<^verbatim>\<open>GetNays\<close> and \<^verbatim>\<open>CBudgetProposal::GetHash\<close> are
  inline in the absent header. Yeas and nays are \<^verbatim>\<open>GetVoteCount\<close> (which is in the file) of
  the two directions; the hash covers the immutable fields of the proposal.
\<close>

definition CBudgetProposal_GetVoteCount :: "CBudgetProposal \<Rightarrow> VoteDirection \<Rightarrow> int" where
  "CBudgetProposal_GetVoteCount p vd =
     fold (\<lambda>it ret. if nVote (snd it) = vd \<and> v_fValid (snd it) then ret + 1 else ret)
       (mapVotes p) 0"

definition GetYeas :: "CBudgetProposal \<Rightarrow> int" where
  "GetYeas p = CBudgetProposal_GetVoteCount p VOTE_YES"

definition GetNays :: "CBudgetProposal \<Rightarrow> int" where
  "GetNays p = CBudgetProposal_GetVoteCount p VOTE_NO"

definition CBudgetProposal_GetHash :: "env \<Rightarrow> CBudgetProposal \<Rightarrow> uint256" where
  "CBudgetProposal_GetHash e p =
     Hash_Proposal e (strProposalName p) (strURL p) (nBlockStart p) (nBlockEnd p) (nAmount p)
       (address p)"

text \<open>
  The copy constructor: it resets \<^verbatim>\<open>fValid\<close> and \<^verbatim>\<open>strInvalid\<close> and does not copy
  \<^verbatim>\<open>nAlloted\<close>, which no constructor initialises; the model takes 0 for it.
\<close>

definition CBudgetProposal_copy :: "CBudgetProposal \<Rightarrow> CBudgetProposal" where
  "CBudgetProposal_copy other = other\<lparr>nAlloted := 0, fValid := True, strInvalid := []\<rparr>"

definition IsHeavilyDownvoted :: "env \<Rightarrow> CBudgetProposal \<Rightarrow> bool \<times> CBudgetProposal" where
  "IsHeavilyDownvoted e p =
     (if GetNays p - GetYeas p > int (CountEnabled e) sdiv 10
      then (True, p\<lparr>strInvalid := ''Proposal '' @ strProposalName p @ '': Active removal''\<rparr>)
      else (False, p))"

definition GetBlockCycle :: "env \<Rightarrow> int \<Rightarrow> int" where
  "GetBlockCycle e nHeight' = nHeight' - nHeight' smod nBudgetCycleBlocks e"

definition GetBlockStartCycle :: "env \<Rightarrow> CBudgetProposal \<Rightarrow> int" where
  "GetBlockStartCycle e p = GetBlockCycle e (nBlockStart p)"

definition GetBlockEndCycle :: "CBudgetProposal \<Rightarrow> int" where
  "GetBlockEndCycle p = nBlockEnd p"

definition GetTotalPaymentCount :: "env \<Rightarrow> CBudgetProposal \<Rightarrow> int" where
  "GetTotalPaymentCount e p =
     (GetBlockEndCycle p - GetBlockStartCycle e p) sdiv nBudgetCycleBlocks e"

definition CheckStartEnd :: "env \<Rightarrow> CBudgetProposal \<Rightarrow> bool \<times> CBudgetProposal" where
  "CheckStartEnd e p =
     (if nBlockStart p < 0 then (False, p\<lparr>strInvalid := ''Invalid Proposal''\<rparr>)
      else if nBlockEnd p < nBlockStart p
      then (False, p\<lparr>strInvalid := ''Proposal '' @ strProposalName p @
                                     '': Invalid nBlockEnd (end before start)''\<rparr>)
      else
        (let nProposalEnd = nBlockStart p + (nBudgetCycleBlocks e + 1) * GetTotalPaymentCount e p
         in if nBlockEnd p \<noteq> nProposalEnd
            then (False, p\<lparr>strInvalid := ''Proposal '' @ strProposalName p @
                                '': Invalid nBlockEnd (mismatch with payments count)''\<rparr>)
            else (True, p)))"

definition CheckAmount :: "CBudgetProposal \<Rightarrow> CAmount \<Rightarrow> bool \<times> CBudgetProposal" where
  "CheckAmount p nTotalBudget =
     (if nAmount p < 10 * COIN
      then (False, p\<lparr>strInvalid := ''Proposal '' @ strProposalName p @
                                     '': Invalid nAmount (too low)''\<rparr>)
      else if nAmount p > nTotalBudget
      then (False, p\<lparr>strInvalid := ''Proposal '' @ strProposalName p @
                                     '': Invalid nAmount (too high)''\<rparr>)
      else (True, p))"

definition CheckAddress :: "env \<Rightarrow> CBudgetProposal \<Rightarrow> bool \<times> CBudgetProposal" where
  "CheckAddress e p =
     (if address p = []
      then (False, p\<lparr>strInvalid := ''Proposal '' @ strProposalName p @
                                     '': Invalid Payment Address (null)''\<rparr>)
      else if IsPayToScriptHash e (address p)
      then (False, p\<lparr>strInvalid := ''Proposal '' @ strProposalName p @
                                     '': Multisig is not currently supported.''\<rparr>)
      else (True, p))"

definition IsWellFormed :: "env \<Rightarrow> CBudgetProposal \<Rightarrow> CAmount \<Rightarrow> bool \<times> CBudgetProposal" where
  "IsWellFormed e p nTotalBudget =
     (let a = CheckStartEnd e p
      in if \<not> fst a then a
         else (let b = CheckAmount (snd a) nTotalBudget
               in if \<not> fst b then b else CheckAddress e (snd b)))"

definition IsExpired :: "CBudgetProposal \<Rightarrow> int \<Rightarrow> bool \<times> CBudgetProposal" where
  "IsExpired p nCurrentHeight =
     (if nBlockEnd p < nCurrentHeight
      then (True, p\<lparr>strInvalid := ''Proposal '' @ strProposalName p @ '': Proposal expired''\<rparr>)
      else (False, p))"

definition CBudgetProposal_UpdateValid ::
  "env \<Rightarrow> CBudgetProposal \<Rightarrow> int \<Rightarrow> bool \<Rightarrow> bool \<times> CBudgetProposal" where
  "CBudgetProposal_UpdateValid e p nCurrentHeight fCheckCollateral =
     (let p0 = p\<lparr>fValid := False\<rparr>;
          d = IsHeavilyDownvoted e p0
      in if fst d then (False, snd d)
         else
           (let w = IsWellFormed e (snd d) (GetTotalBudget e (nBlockStart p))
            in if \<not> fst w then (False, snd w)
               else
                 (let x = IsExpired (snd w) nCurrentHeight
                  in if fst x then (False, snd x)
                     else
                       (let cv = (if fCheckCollateral
                                  then IsBudgetCollateralValid e (nFeeTXHash p)
                                         (CBudgetProposal_GetHash e p) [] (nTime p) 0 False
                                  else (True, [], nTime p, 0));
                            p1 = (snd x)\<lparr>nTime := fst (snd (snd cv))\<rparr>
                        in if \<not> fst cv
                           then (False, p1\<lparr>strInvalid := ''Proposal '' @ strProposalName p @
                                   '': Invalid collateral ('' @ fst (snd cv) @ '')''\<rparr>)
                           else (True, p1\<lparr>fValid := True, strInvalid := []\<rparr>)))))"

definition IsEstablished :: "env \<Rightarrow> CBudgetProposal \<Rightarrow> bool" where
  "IsEstablished e p =
     (sint (nTime p) < sint (GetAdjustedTime e - of_int (nProposalEstablishmentTime e)))"

definition IsPassing :: "env \<Rightarrow> CBudgetProposal \<Rightarrow> int \<Rightarrow> int \<Rightarrow> int \<Rightarrow> bool" where
  "IsPassing e p nBlockStartBudget nBlockEndBudget mnCount =
     (if \<not> fValid p then False
      else if nBlockStart p > nBlockStartBudget then False
      else if nBlockEnd p < nBlockEndBudget then False
      else if GetYeas p - GetNays p \<le> mnCount sdiv 10 then False
      else if \<not> IsEstablished e p then False
      else True)"

text \<open>\<^verbatim>\<open>CleanAndRemove\<close> marks each vote by whether its masternode is still listed.\<close>

definition CBudgetProposal_CleanAndRemove :: "env \<Rightarrow> CBudgetProposal \<Rightarrow> CBudgetProposal" where
  "CBudgetProposal_CleanAndRemove e p =
     p\<lparr>mapVotes := map (\<lambda>it. (fst it, (snd it)\<lparr>v_fValid := mnodeman_Find e (v_vin (snd it))\<rparr>))
                       (mapVotes p)\<rparr>"

definition PtrHigherYes :: "CBudgetProposal \<Rightarrow> CBudgetProposal \<Rightarrow> bool" where
  "PtrHigherYes a b =
     (let netYes_a = GetYeas a - GetNays a;
          netYes_b = GetYeas b - GetNays b
      in if netYes_a = netYes_b then nFeeTXHash a > nFeeTXHash b
         else netYes_a > netYes_b)"

text \<open>
  \<^verbatim>\<open>std::sort(first, last, comp)\<close>: an arrangement in which no element is \<open>comp\<close>-before
  one that precedes it. The model sorts by insertion; where \<open>comp\<close> leaves two elements
  unordered the standard does not fix their order, and the model keeps them as they come.
\<close>

fun sort_insert :: "('a \<Rightarrow> 'a \<Rightarrow> bool) \<Rightarrow> 'a \<Rightarrow> 'a list \<Rightarrow> 'a list" where
  "sort_insert cmp x [] = [x]"
| "sort_insert cmp x (y # ys) =
     (if cmp y x then y # sort_insert cmp x ys else x # y # ys)"

definition std_sort :: "('a \<Rightarrow> 'a \<Rightarrow> bool) \<Rightarrow> 'a list \<Rightarrow> 'a list" where
  "std_sort cmp xs = foldr (sort_insert cmp) xs []"

subsection \<open>The manager: selecting the budget\<close>

text \<open>
  The selection loop of \<^verbatim>\<open>GetBudget\<close> over the sorted pointers. Each proposal visited is
  returned with the state the loop leaves it in and a flag telling whether it was pushed
  to \<^verbatim>\<open>vBudgetProposalsRet\<close>.
\<close>

fun GetBudget_loop ::
  "env \<Rightarrow> int \<Rightarrow> int \<Rightarrow> int \<Rightarrow> CAmount \<Rightarrow> (uint256 \<times> CBudgetProposal) list \<Rightarrow> CAmount
    \<Rightarrow> (bool \<times> uint256 \<times> CBudgetProposal) list" where
  "GetBudget_loop e nBlockStart' nBlockEnd' mnCount nTotalBudget [] nBudgetAllocated = []"
| "GetBudget_loop e nBlockStart' nBlockEnd' mnCount nTotalBudget (it # rest) nBudgetAllocated =
     (let pbudgetProposal = snd it
      in if IsPassing e pbudgetProposal nBlockStart' nBlockEnd' mnCount
         then
           (if nAmount pbudgetProposal + nBudgetAllocated \<le> nTotalBudget
            then (True, fst it, pbudgetProposal\<lparr>nAlloted := nAmount pbudgetProposal\<rparr>) #
                 GetBudget_loop e nBlockStart' nBlockEnd' mnCount nTotalBudget rest
                   (nBudgetAllocated + nAmount pbudgetProposal)
            else (False, fst it, pbudgetProposal\<lparr>nAlloted := 0\<rparr>) #
                 GetBudget_loop e nBlockStart' nBlockEnd' mnCount nTotalBudget rest
                   nBudgetAllocated)
         else (False, fst it, pbudgetProposal) #
              GetBudget_loop e nBlockStart' nBlockEnd' mnCount nTotalBudget rest
                nBudgetAllocated)"

text \<open>
  \<^verbatim>\<open>GetBudget\<close> works on pointers into \<^verbatim>\<open>mapProposals\<close>: it returns the selected proposals
  (with their keys) in order, and the manager whose proposals carry the cleaned votes and
  the allotted amounts that the loop wrote.
\<close>

definition GetBudget ::
  "env \<Rightarrow> CBudgetManager \<Rightarrow> (uint256 \<times> CBudgetProposal) list \<times> CBudgetManager" where
  "GetBudget e m =
     (let nHeight' = nBestHeight m
      in if nHeight' \<le> 0 then ([], m)
         else
           (let cleaned = map (\<lambda>it. (fst it, CBudgetProposal_CleanAndRemove e (snd it)))
                            (mapProposals m);
                vBudgetPorposalsSort = std_sort (\<lambda>a b. PtrHigherYes (snd a) (snd b)) cleaned;
                nBlocksPerCycle = nBudgetCycleBlocks e;
                nBlockStart' = nHeight' - nHeight' smod nBlocksPerCycle + nBlocksPerCycle;
                nBlockEnd' = nBlockStart' + nBlocksPerCycle - 1;
                mnCount = int (CountEnabled e);
                nTotalBudget = GetTotalBudget e nBlockStart';
                visited = GetBudget_loop e nBlockStart' nBlockEnd' mnCount nTotalBudget
                            vBudgetPorposalsSort 0;
                vBudgetProposalsRet = map snd (filter fst visited);
                written = map (\<lambda>it. (fst it,
                                 case map_of (map snd visited) (fst it) of
                                   Some p \<Rightarrow> p
                                 | None \<Rightarrow> snd it)) cleaned
            in (vBudgetProposalsRet, m\<lparr>mapProposals := written\<rparr>)))"

subsection \<open>The manager: seen items, adding items, votes\<close>

text \<open>
  The copy constructor of a finalized budget clears the latch \<^verbatim>\<open>fAutoChecked\<close>, resets
  \<^verbatim>\<open>fValid\<close> and \<^verbatim>\<open>strInvalid\<close>, and does not copy \<^verbatim>\<open>mapPayment_History\<close>. Every
  \<^verbatim>\<open>emplace\<close> of an object into a map copies it.
\<close>

definition CFinalizedBudget_copy :: "CFinalizedBudget \<Rightarrow> CFinalizedBudget" where
  "CFinalizedBudget_copy other =
     other\<lparr>fAutoChecked := False, fb_fValid := True, fb_strInvalid := [],
            mapPayment_History := []\<rparr>"

definition CBudgetVote_GetHash :: "env \<Rightarrow> CBudgetVote \<Rightarrow> uint256" where
  "CBudgetVote_GetHash e v = Hash_BudgetVote e (v_vin v) (v_nProposalHash v) (nVote v) (v_nTime v)"

definition CFinalizedBudgetVote_GetHash :: "env \<Rightarrow> CFinalizedBudgetVote \<Rightarrow> uint256" where
  "CFinalizedBudgetVote_GetHash e v = Hash_FinalizedBudgetVote e (fv_vin v) (nBudgetHash v) (fv_nTime v)"

text \<open>
  Modelled from the spec: the \<^verbatim>\<open>HaveSeen...\<close> tests, \<^verbatim>\<open>ClearSeen\<close>, \<^verbatim>\<open>ResetSync\<close> and
  \<^verbatim>\<open>MarkSynced\<close> are inline in the absent header. A test looks the hash up in the seen map;
  \<^verbatim>\<open>ClearSeen\<close> clears the four seen maps; the other two are \<^verbatim>\<open>SetSynced(false)\<close> and
  \<^verbatim>\<open>SetSynced(true)\<close>.
\<close>

definition HaveSeenProposal :: "CBudgetManager \<Rightarrow> uint256 \<Rightarrow> bool" where
  "HaveSeenProposal m propHash = count (mapSeenProposals m) propHash"

definition HaveSeenProposalVote :: "CBudgetManager \<Rightarrow> uint256 \<Rightarrow> bool" where
  "HaveSeenProposalVote m voteHash = count (mapSeenProposalVotes m) voteHash"

definition HaveSeenFinalizedBudget :: "CBudgetManager \<Rightarrow> uint256 \<Rightarrow> bool" where
  "HaveSeenFinalizedBudget m budgetHash = count (mapSeenFinalizedBudgets m) budgetHash"

definition HaveSeenFinalizedBudgetVote :: "CBudgetManager \<Rightarrow> uint256 \<Rightarrow> bool" where
  "HaveSeenFinalizedBudgetVote m voteHash = count (mapSeenFinalizedBudgetVotes m) voteHash"

definition ClearSeen :: "CBudgetManager \<Rightarrow> CBudgetManager" where
  "ClearSeen m = m\<lparr>mapSeenProposals := [], mapSeenProposalVotes := [],
                   mapSeenFinalizedBudgets := [], mapSeenFinalizedBudgetVotes := []\<rparr>"

definition AddSeenProposal :: "env \<Rightarrow> CBudgetManager \<Rightarrow> CBudgetProposal \<Rightarrow> CBudgetManager" where
  "AddSeenProposal e m prop =
     m\<lparr>mapSeenProposals :=
          emplace (CBudgetProposal_GetHash e prop) (CBudgetProposal_copy prop) (mapSeenProposals m)\<rparr>"

definition AddSeenProposalVote :: "env \<Rightarrow> CBudgetManager \<Rightarrow> CBudgetVote \<Rightarrow> CBudgetManager" where
  "AddSeenProposalVote e m vote =
     m\<lparr>mapSeenProposalVotes := emplace (CBudgetVote_GetHash e vote) vote (mapSeenProposalVotes m)\<rparr>"

definition AddSeenFinalizedBudget ::
  "env \<Rightarrow> CBudgetManager \<Rightarrow> CFinalizedBudget \<Rightarrow> CBudgetManager" where
  "AddSeenFinalizedBudget e m bud =
     m\<lparr>mapSeenFinalizedBudgets :=
          emplace (CFinalizedBudget_GetHash e bud) (CFinalizedBudget_copy bud)
            (mapSeenFinalizedBudgets m)\<rparr>"

definition AddSeenFinalizedBudgetVote ::
  "env \<Rightarrow> CBudgetManager \<Rightarrow> CFinalizedBudgetVote \<Rightarrow> CBudgetManager" where
  "AddSeenFinalizedBudgetVote e m vote =
     m\<lparr>mapSeenFinalizedBudgetVotes :=
          emplace (CFinalizedBudgetVote_GetHash e vote) vote (mapSeenFinalizedBudgetVotes m)\<rparr>"

text \<open>\<^verbatim>\<open>SetBudgetProposalsStr\<close>: the names of the paid proposals, or their hashes when unknown.\<close>

definition SetBudgetProposalsStr :: "env \<Rightarrow> CBudgetManager \<Rightarrow> CFinalizedBudget \<Rightarrow> CFinalizedBudget" where
  "SetBudgetProposalsStr e m finalizedBudget =
     finalizedBudget\<lparr>strProposals :=
       fold (\<lambda>hash str.
               (let token = (case map_of (mapProposals m) hash of
                               Some p \<Rightarrow> strProposalName p
                             | None \<Rightarrow> uint256_ToString e hash)
                in str @ (if str = [] then [] else '', '') @ token))
         (map nProposalHash (vecBudgetPayments finalizedBudget)) []\<rparr>"

text \<open>
  \<^verbatim>\<open>AddFinalizedBudget\<close> and \<^verbatim>\<open>AddProposal\<close> take their argument by reference and
  validate it in place: the result, the manager and the argument as it is left.
  Modelled from the spec: the default of \<^verbatim>\<open>fCheckCollateral\<close> (declared in the header) is
  true, validation includes the collateral.
\<close>

definition AddFinalizedBudget ::
  "env \<Rightarrow> CBudgetManager \<Rightarrow> CFinalizedBudget \<Rightarrow> bool \<times> CBudgetManager \<times> CFinalizedBudget" where
  "AddFinalizedBudget e m finalizedBudget =
     (let nHash = CFinalizedBudget_GetHash e finalizedBudget
      in if count (mapFinalizedBudgets m) nHash then (False, m, finalizedBudget)
         else
           (let u = CFinalizedBudget_UpdateValid e finalizedBudget (nBestHeight m) True
            in if \<not> fst u then (False, m, snd u)
               else
                 (let fb = SetBudgetProposalsStr e m (snd u)
                  in (True,
                      m\<lparr>mapFinalizedBudgets :=
                           emplace nHash (CFinalizedBudget_copy fb) (mapFinalizedBudgets m)\<rparr>,
                      fb))))"

definition AddProposal ::
  "env \<Rightarrow> CBudgetManager \<Rightarrow> CBudgetProposal \<Rightarrow> bool \<times> CBudgetManager \<times> CBudgetProposal" where
  "AddProposal e m budgetProposal =
     (let u = CBudgetProposal_UpdateValid e budgetProposal (nBestHeight m) True
      in if \<not> fst u then (False, m, snd u)
         else
           (let hash = CBudgetProposal_GetHash e (snd u)
            in if count (mapProposals m) hash then (False, m, snd u)
               else (True,
                     m\<lparr>mapProposals :=
                          emplace hash (CBudgetProposal_copy (snd u)) (mapProposals m)\<rparr>,
                     snd u)))"

text \<open>
  \<^verbatim>\<open>UpdateProposal\<close> and \<^verbatim>\<open>UpdateFinalizedBudget\<close>: \<open>pfrom\<close> tells whether a peer was
  given (the requests sent to it are not part of the state). The result, \<^verbatim>\<open>strError\<close>
  and the manager.
\<close>

definition UpdateProposal ::
  "env \<Rightarrow> CBudgetManager \<Rightarrow> CBudgetVote \<Rightarrow> bool \<Rightarrow> string \<Rightarrow> bool \<times> string \<times> CBudgetManager" where
  "UpdateProposal e m vote pfrom strError =
     (let nProposalHash' = v_nProposalHash vote
      in case map_of (mapProposals m) nProposalHash' of
           None \<Rightarrow>
             if pfrom
             then (if \<not> masternodeSync_IsSynced e then (False, strError, m)
                   else
                     (let m1 = m\<lparr>mapOrphanProposalVotes :=
                                    assign nProposalHash' vote (mapOrphanProposalVotes m)\<rparr>;
                          m2 = (if \<not> count (askedForSourceProposalOrBudget m1) nProposalHash'
                                then m1\<lparr>askedForSourceProposalOrBudget :=
                                          assign nProposalHash' (GetTime e)
                                            (askedForSourceProposalOrBudget m1)\<rparr>
                                else m1)
                      in (False, ''Proposal not found!'', m2)))
             else (False, ''Proposal not found!'', m)
         | Some p \<Rightarrow>
             (let r = CBudgetProposal_AddOrUpdateVote e p vote strError
              in (fst r, fst (snd r),
                  m\<lparr>mapProposals := assign nProposalHash' (snd (snd r)) (mapProposals m)\<rparr>)))"

definition UpdateFinalizedBudget ::
  "env \<Rightarrow> CBudgetManager \<Rightarrow> CFinalizedBudgetVote \<Rightarrow> bool \<Rightarrow> string
    \<Rightarrow> bool \<times> string \<times> CBudgetManager" where
  "UpdateFinalizedBudget e m vote pfrom strError =
     (let nBudgetHash' = nBudgetHash vote
      in case map_of (mapFinalizedBudgets m) nBudgetHash' of
           None \<Rightarrow>
             if pfrom
             then (if \<not> masternodeSync_IsSynced e then (False, strError, m)
                   else
                     (let m1 = m\<lparr>mapOrphanFinalizedBudgetVotes :=
                                    assign nBudgetHash' vote (mapOrphanFinalizedBudgetVotes m)\<rparr>;
                          m2 = (if \<not> count (askedForSourceProposalOrBudget m1) nBudgetHash'
                                then m1\<lparr>askedForSourceProposalOrBudget :=
                                          assign nBudgetHash' (GetTime e)
                                            (askedForSourceProposalOrBudget m1)\<rparr>
                                else m1)
                      in (False, ''Finalized Budget %s not found!'', m2)))
             else (False, ''Finalized Budget %s not found!'', m)
         | Some fb \<Rightarrow>
             (let r = CFinalizedBudget_AddOrUpdateVote e fb vote strError
              in (fst r, fst (snd r),
                  m\<lparr>mapFinalizedBudgets :=
                       assign nBudgetHash' (snd (snd r)) (mapFinalizedBudgets m)\<rparr>)))"

text \<open>
  \<^verbatim>\<open>CheckOrphanVotes\<close>: each orphan vote is offered again (no peer given); the loops return
  the votes that stay orphans.
\<close>

fun CheckOrphanVotes_proposals ::
  "env \<Rightarrow> (uint256, CBudgetVote) std_map \<Rightarrow> CBudgetManager
    \<Rightarrow> (uint256, CBudgetVote) std_map \<times> CBudgetManager" where
  "CheckOrphanVotes_proposals e [] m = ([], m)"
| "CheckOrphanVotes_proposals e (it # rest) m =
     (let r = UpdateProposal e m (snd it) False [];
          l = CheckOrphanVotes_proposals e rest (snd (snd r))
      in if fst r then l else (it # fst l, snd l))"

fun CheckOrphanVotes_budgets ::
  "env \<Rightarrow> (uint256, CFinalizedBudgetVote) std_map \<Rightarrow> CBudgetManager
    \<Rightarrow> (uint256, CFinalizedBudgetVote) std_map \<times> CBudgetManager" where
  "CheckOrphanVotes_budgets e [] m = ([], m)"
| "CheckOrphanVotes_budgets e (it # rest) m =
     (let r = UpdateFinalizedBudget e m (snd it) False [];
          l = CheckOrphanVotes_budgets e rest (snd (snd r))
      in if fst r then l else (it # fst l, snd l))"

definition CheckOrphanVotes :: "env \<Rightarrow> CBudgetManager \<Rightarrow> CBudgetManager" where
  "CheckOrphanVotes e m =
     (let a = CheckOrphanVotes_proposals e (mapOrphanProposalVotes m) m;
          m1 = (snd a)\<lparr>mapOrphanProposalVotes := fst a\<rparr>;
          b = CheckOrphanVotes_budgets e (mapOrphanFinalizedBudgetVotes m1) m1
      in (snd b)\<lparr>mapOrphanFinalizedBudgetVotes := fst b\<rparr>)"

subsection \<open>Finalized budgets: auto-check and vote\<close>

text \<open>
  \<^verbatim>\<open>SubmitVote\<close> and \<^verbatim>\<open>CheckAndVote\<close> are methods of a finalized budget that lives in the
  manager's map and call back into the global manager; \<open>k\<close> is the key under which
  \<^verbatim>\<open>this\<close> is stored, and the functions transform the manager.
\<close>

definition SubmitVote :: "env \<Rightarrow> CBudgetManager \<Rightarrow> uint256 \<Rightarrow> CBudgetManager" where
  "SubmitVote e m k =
     (case (map_of (mapFinalizedBudgets m) k, activeMasternode_vin e) of
        (Some this, Some vin) \<Rightarrow>
          if \<not> GetKeysFromSecret_ok e then m
          else
            (let vote = \<lparr>fv_fValid = True, fv_fSynced = False, fv_vin = vin,
                         nBudgetHash = CFinalizedBudget_GetHash e this,
                         fv_nTime = GetAdjustedTime e\<rparr>
             in if \<not> Sign_ok e then m
                else
                  (let r = UpdateFinalizedBudget e m vote False []
                   in if fst r then AddSeenFinalizedBudgetVote e (snd (snd r)) vote
                      else snd (snd r)))
      | _ \<Rightarrow> m)"

text \<open>
  Modelled from the spec: \<^verbatim>\<open>CBudgetProposal::PtrGreater\<close> and the order of
  \<^verbatim>\<open>CTxBudgetPayment\<close> are declared in the header; both sorts are by descending hash.
\<close>

definition payments_match ::
  "env \<Rightarrow> CTxBudgetPayment list \<Rightarrow> (uint256 \<times> CBudgetProposal) list \<Rightarrow> bool" where
  "payments_match e pays props =
     list_all2 (\<lambda>pay prop. nProposalHash pay = CBudgetProposal_GetHash e (snd prop) \<and>
                           payee pay = address (snd prop) \<and>
                           pay_nAmount pay = nAmount (snd prop)) pays props"

definition CheckAndVote :: "env \<Rightarrow> CBudgetManager \<Rightarrow> uint256 \<Rightarrow> CBudgetManager" where
  "CheckAndVote e m k =
     (case map_of (mapFinalizedBudgets m) k of
        None \<Rightarrow> m
      | Some this \<Rightarrow>
          if \<not> fMasterNode e \<or> fAutoChecked this then m
          else if activeMasternode_vin e = None then m
          else
            (let r = rand e (nRandCalls m);
                 m1 = m\<lparr>nRandCalls := nRandCalls m + 1\<rparr>
             in if r mod 4 \<noteq> 0 then m1
                else
                  (let m2 = m1\<lparr>mapFinalizedBudgets :=
                                  assign k (this\<lparr>fAutoChecked := True\<rparr>) (mapFinalizedBudgets m1)\<rparr>
                   in if strBudgetMode e = ''auto''
                      then
                        (let g = GetBudget e m2;
                             vBudgetProposalsSortedByHash =
                               std_sort (\<lambda>a b. CBudgetProposal_GetHash e (snd a) >
                                               CBudgetProposal_GetHash e (snd b)) (fst g);
                             vecBudgetPaymentsSortedByHash =
                               std_sort (\<lambda>a b. nProposalHash a > nProposalHash b)
                                 (vecBudgetPayments this)
                         in if length vBudgetProposalsSortedByHash = 0 then snd g
                            else if length vBudgetProposalsSortedByHash \<noteq>
                                    length vecBudgetPaymentsSortedByHash then snd g
                            else if \<not> payments_match e vecBudgetPaymentsSortedByHash
                                        vBudgetProposalsSortedByHash then snd g
                            else SubmitVote e (snd g) k)
                      else m2)))"

subsection \<open>The manager: periodic maintenance\<close>

text \<open>
  The first loop of \<^verbatim>\<open>CheckAndRemove\<close>, over the keys of \<^verbatim>\<open>mapFinalizedBudgets\<close>: a budget
  is revalidated in place; a valid one runs \<^verbatim>\<open>CheckAndVote\<close> and is then copied into the
  temporary map, which replaces the map at the end.
\<close>

fun CheckAndRemove_budgets ::
  "env \<Rightarrow> int \<Rightarrow> uint256 list \<Rightarrow> CBudgetManager \<Rightarrow> (uint256, CFinalizedBudget) std_map
    \<Rightarrow> CBudgetManager \<times> (uint256, CFinalizedBudget) std_map" where
  "CheckAndRemove_budgets e nCurrentHeight [] m tmpMapFinalizedBudgets =
     (m, tmpMapFinalizedBudgets)"
| "CheckAndRemove_budgets e nCurrentHeight (k # ks) m tmpMapFinalizedBudgets =
     (case map_of (mapFinalizedBudgets m) k of
        None \<Rightarrow> CheckAndRemove_budgets e nCurrentHeight ks m tmpMapFinalizedBudgets
      | Some pfinalizedBudget \<Rightarrow>
          (let u = CFinalizedBudget_UpdateValid e pfinalizedBudget nCurrentHeight True;
               m1 = m\<lparr>mapFinalizedBudgets := assign k (snd u) (mapFinalizedBudgets m)\<rparr>
           in if \<not> fst u
              then CheckAndRemove_budgets e nCurrentHeight ks m1 tmpMapFinalizedBudgets
              else
                (let m2 = CheckAndVote e m1 k
                 in case map_of (mapFinalizedBudgets m2) k of
                      None \<Rightarrow> CheckAndRemove_budgets e nCurrentHeight ks m2 tmpMapFinalizedBudgets
                    | Some fb \<Rightarrow>
                        CheckAndRemove_budgets e nCurrentHeight ks m2
                          (emplace (CFinalizedBudget_GetHash e fb) (CFinalizedBudget_copy fb)
                             tmpMapFinalizedBudgets))))"

fun CheckAndRemove_proposals ::
  "env \<Rightarrow> int \<Rightarrow> (uint256, CBudgetProposal) std_map \<Rightarrow> (uint256, CBudgetProposal) std_map
    \<Rightarrow> (uint256, CBudgetProposal) std_map" where
  "CheckAndRemove_proposals e nCurrentHeight [] tmpMapProposals = tmpMapProposals"
| "CheckAndRemove_proposals e nCurrentHeight (it # rest) tmpMapProposals =
     (let u = CBudgetProposal_UpdateValid e (snd it) nCurrentHeight True
      in if \<not> fst u then CheckAndRemove_proposals e nCurrentHeight rest tmpMapProposals
         else CheckAndRemove_proposals e nCurrentHeight rest
                (emplace (CBudgetProposal_GetHash e (snd u)) (CBudgetProposal_copy (snd u))
                   tmpMapProposals))"

definition CheckAndRemove :: "env \<Rightarrow> CBudgetManager \<Rightarrow> CBudgetManager" where
  "CheckAndRemove e m =
     (let nCurrentHeight = nBestHeight m;
          b = CheckAndRemove_budgets e nCurrentHeight (map fst (mapFinalizedBudgets m)) m [];
          m1 = (fst b)\<lparr>mapFinalizedBudgets := snd b\<rparr>
      in m1\<lparr>mapProposals := CheckAndRemove_proposals e nCurrentHeight (mapProposals m1) []\<rparr>)"

subsection \<open>The validity of a finalized budget in the words of the specification\<close>




subsection \<open>The manager: sync flags, local submission, new blocks, peer messages\<close>

definition CBudgetProposal_SetSynced :: "bool \<Rightarrow> CBudgetProposal \<Rightarrow> CBudgetProposal" where
  "CBudgetProposal_SetSynced synced p =
     p\<lparr>mapVotes := map (\<lambda>it. (fst it,
                             if synced
                             then (if v_fValid (snd it) then (snd it)\<lparr>v_fSynced := True\<rparr> else snd it)
                             else (snd it)\<lparr>v_fSynced := False\<rparr>)) (mapVotes p)\<rparr>"

definition CFinalizedBudget_SetSynced :: "bool \<Rightarrow> CFinalizedBudget \<Rightarrow> CFinalizedBudget" where
  "CFinalizedBudget_SetSynced synced fb =
     fb\<lparr>fb_mapVotes := map (\<lambda>it. (fst it,
                                 if synced
                                 then (if fv_fValid (snd it) then (snd it)\<lparr>fv_fSynced := True\<rparr>
                                       else snd it)
                                 else (snd it)\<lparr>fv_fSynced := False\<rparr>)) (fb_mapVotes fb)\<rparr>"

definition SetSynced :: "CBudgetManager \<Rightarrow> bool \<Rightarrow> CBudgetManager" where
  "SetSynced m synced =
     m\<lparr>mapProposals :=
          fold (\<lambda>it mp. case map_of mp (fst it) of
                          None \<Rightarrow> mp
                        | Some p \<Rightarrow> if fValid p
                                    then assign (fst it) (CBudgetProposal_SetSynced synced p) mp
                                    else mp)
            (mapSeenProposals m) (mapProposals m),
        mapFinalizedBudgets :=
          fold (\<lambda>it mp. case map_of mp (fst it) of
                          None \<Rightarrow> mp
                        | Some fb \<Rightarrow> if fb_fValid fb
                                     then assign (fst it) (CFinalizedBudget_SetSynced synced fb) mp
                                     else mp)
            (mapSeenFinalizedBudgets m) (mapFinalizedBudgets m)\<rparr>"

definition ResetSync :: "CBudgetManager \<Rightarrow> CBudgetManager" where
  "ResetSync m = SetSynced m False"

definition MarkSynced :: "CBudgetManager \<Rightarrow> CBudgetManager" where
  "MarkSynced m = SetSynced m True"

text \<open>
  The broadcast built from a name, a start block, payments and a collateral txid: the
  default constructor, then the four fields.
\<close>

definition CFinalizedBudgetBroadcast ::
  "string \<Rightarrow> int \<Rightarrow> CTxBudgetPayment list \<Rightarrow> uint256 \<Rightarrow> CFinalizedBudget" where
  "CFinalizedBudgetBroadcast strBudgetNameIn nBlockStartIn vecBudgetPaymentsIn nFeeTXHashIn =
     \<lparr>fAutoChecked = False, fb_fValid = True, fb_strInvalid = [], fb_mapVotes = [],
      strBudgetName = strBudgetNameIn, fb_nBlockStart = nBlockStartIn,
      vecBudgetPayments = vecBudgetPaymentsIn, fb_nFeeTXHash = nFeeTXHashIn,
      strProposals = [], fb_nTime = 0, mapPayment_History = []\<rparr>"

text \<open>
  \<^verbatim>\<open>SubmitFinalBudget\<close>. The wallet answers through \<open>CreateBudgetFeeTX\<close> (the txid of the
  collateral it built, if it could) and \<open>CommitTransaction_ok\<close>; relaying is not part of the
  state.
\<close>

definition SubmitFinalBudget :: "env \<Rightarrow> CBudgetManager \<Rightarrow> CBudgetManager" where
  "SubmitFinalBudget e m =
     (let nCurrentHeight = nBestHeight m;
          nBlocksPerCycle = nBudgetCycleBlocks e;
          nBlockStart' = nCurrentHeight - nCurrentHeight smod nBlocksPerCycle + nBlocksPerCycle
      in if nSubmittedHeight m \<ge> nBlockStart' then m
         else
           (let finalizationWindow = (if IsTestnet e then 64 else (nBlocksPerCycle sdiv 30) * 2)
            in if nBlockStart' - nCurrentHeight > finalizationWindow then m
               else
                 (let g = GetBudget e m;
                      m1 = snd g;
                      vecTxBudgetPayments =
                        map (\<lambda>it. \<lparr>nProposalHash = CBudgetProposal_GetHash e (snd it),
                                   payee = address (snd it),
                                   pay_nAmount = nAlloted (snd it)\<rparr>) (fst g)
                  in if length vecTxBudgetPayments < 1 then m1
                     else
                       (let tempBudget = CFinalizedBudgetBroadcast ''main'' nBlockStart'
                                           vecTxBudgetPayments 0;
                            budgetHash = CFinalizedBudget_GetHash e tempBudget
                        in if HaveSeenFinalizedBudget m1 budgetHash
                           then m1\<lparr>nSubmittedHeight := nCurrentHeight\<rparr>
                           else
                             (case (case map_of (mapCollateralTxids m1) budgetHash of
                                      Some txid \<Rightarrow> Some (txid, m1)
                                    | None \<Rightarrow>
                                        (case CreateBudgetFeeTX e budgetHash of
                                           None \<Rightarrow> None
                                         | Some txid \<Rightarrow>
                                             if \<not> CommitTransaction_ok e txid then None
                                             else Some (txid,
                                                    m1\<lparr>mapCollateralTxids :=
                                                         emplace budgetHash txid
                                                           (mapCollateralTxids m1)\<rparr>))) of
                                None \<Rightarrow> m1
                              | Some c \<Rightarrow>
                                  (let txidCollateral = fst c;
                                       m2 = snd c;
                                       finalizedBudgetBroadcast =
                                         CFinalizedBudgetBroadcast ''main'' nBlockStart'
                                           vecTxBudgetPayments txidCollateral;
                                       cv = IsBudgetCollateralValid e txidCollateral
                                              (CFinalizedBudget_GetHash e finalizedBudgetBroadcast)
                                              [] 0 0 True
                                   in if \<not> fst cv then m2
                                      else
                                        (let u = CFinalizedBudget_UpdateValid e
                                                   finalizedBudgetBroadcast nCurrentHeight True
                                         in if \<not> fst u then m2
                                            else
                                              (let m3 = AddSeenFinalizedBudget e m2 (snd u);
                                                   a = AddFinalizedBudget e m3 (snd u)
                                               in (fst (snd a))
                                                    \<lparr>nSubmittedHeight := nCurrentHeight\<rparr>))))))))"

text \<open>
  The two loops of \<^verbatim>\<open>NewBlock\<close> that promote immature items: the items that stay in the
  vector and the manager. \<^verbatim>\<open>IsBudgetCollateralValid\<close> writes the time of the item through
  its reference parameter also when it fails.
\<close>

fun NewBlock_immature_proposals ::
  "env \<Rightarrow> int \<Rightarrow> CBudgetProposal list \<Rightarrow> CBudgetManager
    \<Rightarrow> CBudgetProposal list \<times> CBudgetManager" where
  "NewBlock_immature_proposals e nCurrentHeight [] m = ([], m)"
| "NewBlock_immature_proposals e nCurrentHeight (it # rest) m =
     (let cv = IsBudgetCollateralValid e (nFeeTXHash it) (CBudgetProposal_GetHash e it)
                 [] (nTime it) 0 False;
          it1 = it\<lparr>nTime := fst (snd (snd cv))\<rparr>
      in if \<not> fst cv
         then (let l = NewBlock_immature_proposals e nCurrentHeight rest m
               in (it1 # fst l, snd l))
         else
           (let u = CBudgetProposal_UpdateValid e it1 nCurrentHeight True
            in if \<not> fst u then NewBlock_immature_proposals e nCurrentHeight rest m
               else
                 (let a = AddProposal e m (CBudgetProposal_copy (snd u))
                  in NewBlock_immature_proposals e nCurrentHeight rest (fst (snd a)))))"

fun NewBlock_immature_budgets ::
  "env \<Rightarrow> int \<Rightarrow> CFinalizedBudget list \<Rightarrow> CBudgetManager
    \<Rightarrow> CFinalizedBudget list \<times> CBudgetManager" where
  "NewBlock_immature_budgets e nCurrentHeight [] m = ([], m)"
| "NewBlock_immature_budgets e nCurrentHeight (it # rest) m =
     (let cv = IsBudgetCollateralValid e (fb_nFeeTXHash it) (CFinalizedBudget_GetHash e it)
                 [] (fb_nTime it) 0 True;
          it1 = it\<lparr>fb_nTime := fst (snd (snd cv))\<rparr>
      in if \<not> fst cv
         then (let l = NewBlock_immature_budgets e nCurrentHeight rest m
               in (it1 # fst l, snd l))
         else
           (let u = CFinalizedBudget_UpdateValid e it1 nCurrentHeight True
            in if \<not> fst u then NewBlock_immature_budgets e nCurrentHeight rest m
               else
                 (let a = AddFinalizedBudget e m (CFinalizedBudget_copy (snd u))
                  in NewBlock_immature_budgets e nCurrentHeight rest (fst (snd a)))))"

definition CFinalizedBudget_CleanAndRemove :: "env \<Rightarrow> CFinalizedBudget \<Rightarrow> CFinalizedBudget" where
  "CFinalizedBudget_CleanAndRemove e fb =
     fb\<lparr>fb_mapVotes := map (\<lambda>it. (fst it, (snd it)\<lparr>fv_fValid := mnodeman_Find e (fv_vin (snd it))\<rparr>))
                           (fb_mapVotes fb)\<rparr>"

text \<open>
  \<^verbatim>\<open>NewBlock\<close>. \<open>masternodeSync_PastBudget\<close> is the test
  \<^verbatim>\<open>RequestedMasternodeAssets > MASTERNODE_SYNC_BUDGET\<close>; the two \<^verbatim>\<open>TRY_LOCK\<close>s succeed or
  fail as the environment says; the sync pushed to the peers is not part of the state.
\<close>

definition NewBlock :: "env \<Rightarrow> CBudgetManager \<Rightarrow> int \<Rightarrow> CBudgetManager" where
  "NewBlock e m height =
     (let m0 = m\<lparr>nBestHeight := height\<rparr>
      in if \<not> masternodeSync_PastBudget e then m0
         else
           (let m1 = (if strBudgetMode e = ''suggest'' then SubmitFinalBudget e m0 else m0);
                nCurrentHeight = nBestHeight m1
            in if nCurrentHeight smod 14 \<noteq> 0 then m1
               else
                 (let m2 = (if masternodeSync_IsSynced e
                            then
                              (let r = rand e (nRandCalls m1);
                                   m1a = m1\<lparr>nRandCalls := nRandCalls m1 + 1\<rparr>;
                                   m1b = (if r mod 1440 = 0 then ResetSync (ClearSeen m1a) else m1a)
                               in MarkSynced m1b)
                            else m1);
                      m3 = CheckAndRemove e m2;
                      m4 = m3\<lparr>askedForSourceProposalOrBudget :=
                                filter (\<lambda>it. \<not> sint (snd it) \<le> sint (GetTime e - (60 * 60 * 24)))
                                  (askedForSourceProposalOrBudget m3)\<rparr>
                  in if \<not> TRY_LOCK_cs_proposals e then m4
                     else
                       (let m5 = m4\<lparr>mapProposals :=
                                      map (\<lambda>it. (fst it, CBudgetProposal_CleanAndRemove e (snd it)))
                                        (mapProposals m4)\<rparr>;
                            ip = NewBlock_immature_proposals e nCurrentHeight
                                   (vecImmatureProposals m5) m5;
                            m6 = (snd ip)\<lparr>vecImmatureProposals := fst ip\<rparr>
                        in if \<not> TRY_LOCK_cs_budgets e then m6
                           else
                             (let m7 = m6\<lparr>mapFinalizedBudgets :=
                                            map (\<lambda>it. (fst it,
                                                   CFinalizedBudget_CleanAndRemove e (snd it)))
                                              (mapFinalizedBudgets m6)\<rparr>;
                                  ib = NewBlock_immature_budgets e nCurrentHeight
                                         (vecImmatureFinalizedBudgets m7) m7
                              in (snd ib)\<lparr>vecImmatureFinalizedBudgets := fst ib\<rparr>)))))"

text \<open>
  The five peer messages, with their payload as it is deserialised. Requests, relays and
  misbehaviour scores go to the peer and are not part of the state.
\<close>

datatype message =
    BUDGETVOTESYNC uint256
  | BUDGETPROPOSAL CBudgetProposal
  | BUDGETVOTE CBudgetVote
  | FINALBUDGET CFinalizedBudget
  | FINALBUDGETVOTE CFinalizedBudgetVote

definition ProcessMessage :: "env \<Rightarrow> CBudgetManager \<Rightarrow> message \<Rightarrow> CBudgetManager" where
  "ProcessMessage e m msg =
     (if fLiteMode e then m
      else if \<not> masternodeSync_IsBlockchainSynced e then m
      else
        (let nCurrentHeight = nBestHeight m
         in case msg of
              BUDGETVOTESYNC nProp \<Rightarrow> m
            | BUDGETPROPOSAL budgetProposalBroadcast \<Rightarrow>
                if HaveSeenProposal m (CBudgetProposal_GetHash e budgetProposalBroadcast) then m
                else
                  (let cv = IsBudgetCollateralValid e (nFeeTXHash budgetProposalBroadcast)
                              (CBudgetProposal_GetHash e budgetProposalBroadcast) []
                              (nTime budgetProposalBroadcast) 0 False;
                       b1 = budgetProposalBroadcast\<lparr>nTime := fst (snd (snd cv))\<rparr>
                   in if \<not> fst cv
                      then (if snd (snd (snd cv)) \<ge> 1
                            then m\<lparr>vecImmatureProposals :=
                                     vecImmatureProposals m @ [CBudgetProposal_copy b1]\<rparr>
                            else m)
                      else
                        (let m1 = AddSeenProposal e m b1;
                             u = CBudgetProposal_UpdateValid e b1 nCurrentHeight True
                         in if \<not> fst u then m1
                            else
                              (let a = AddProposal e m1 (CBudgetProposal_copy (snd u))
                               in CheckOrphanVotes e (fst (snd a)))))
            | BUDGETVOTE vote0 \<Rightarrow>
                (let vote = vote0\<lparr>v_fValid := True\<rparr>
                 in if HaveSeenProposalVote m (CBudgetVote_GetHash e vote) then m
                    else if \<not> mnodeman_Find e (v_vin vote) then m
                    else
                      (let m1 = AddSeenProposalVote e m vote
                       in if \<not> CBudgetVote_CheckSignature e vote then m1
                          else snd (snd (UpdateProposal e m1 vote True []))))
            | FINALBUDGET finalizedBudgetBroadcast \<Rightarrow>
                if HaveSeenFinalizedBudget m (CFinalizedBudget_GetHash e finalizedBudgetBroadcast)
                then m
                else
                  (let cv = IsBudgetCollateralValid e (fb_nFeeTXHash finalizedBudgetBroadcast)
                              (CFinalizedBudget_GetHash e finalizedBudgetBroadcast) []
                              (fb_nTime finalizedBudgetBroadcast) 0 True;
                       b1 = finalizedBudgetBroadcast\<lparr>fb_nTime := fst (snd (snd cv))\<rparr>
                   in if \<not> fst cv
                      then (if snd (snd (snd cv)) \<ge> 1
                            then m\<lparr>vecImmatureFinalizedBudgets :=
                                     vecImmatureFinalizedBudgets m @ [CFinalizedBudget_copy b1]\<rparr>
                            else m)
                      else
                        (let m1 = AddSeenFinalizedBudget e m b1;
                             u = CFinalizedBudget_UpdateValid e b1 nCurrentHeight True
                         in if \<not> fst u then m1
                            else
                              (let a = AddFinalizedBudget e m1 (CFinalizedBudget_copy (snd u))
                               in CheckOrphanVotes e (fst (snd a)))))
            | FINALBUDGETVOTE vote0 \<Rightarrow>
                (let vote = vote0\<lparr>fv_fValid := True\<rparr>
                 in if HaveSeenFinalizedBudgetVote m (CFinalizedBudgetVote_GetHash e vote) then m
                    else if \<not> mnodeman_Find e (fv_vin vote) then m
                    else
                      (let m1 = AddSeenFinalizedBudgetVote e m vote
                       in if \<not> CFinalizedBudgetVote_CheckSignature e vote then m1
                          else snd (snd (UpdateFinalizedBudget e m1 vote True []))))))"

subsection \<open>The seen maps and the active maps\<close>

text \<open>Every active item is stored under its hash; the seen keys include the active keys.\<close>

definition keyed_by_hash :: "env \<Rightarrow> CBudgetManager \<Rightarrow> bool" where
  "keyed_by_hash e m \<longleftrightarrow>
     list_all (\<lambda>it. fst it = CBudgetProposal_GetHash e (snd it)) (mapProposals m) \<and>
     list_all (\<lambda>it. fst it = CFinalizedBudget_GetHash e (snd it)) (mapFinalizedBudgets m)"

definition seen_superset :: "CBudgetManager \<Rightarrow> bool" where
  "seen_superset m \<longleftrightarrow>
     fst ` set (mapProposals m) \<subseteq> fst ` set (mapSeenProposals m) \<and>
     fst ` set (mapFinalizedBudgets m) \<subseteq> fst ` set (mapSeenFinalizedBudgets m)"

text \<open>
  A step that leaves the seen maps alone and, from a state keyed by hash, leads to a state
  keyed by hash with no new active key.
\<close>

definition frame :: "env \<Rightarrow> CBudgetManager \<Rightarrow> CBudgetManager \<Rightarrow> bool" where
  "frame e m m' \<longleftrightarrow>
     mapSeenProposals m' = mapSeenProposals m \<and>
     mapSeenFinalizedBudgets m' = mapSeenFinalizedBudgets m \<and>
     (keyed_by_hash e m \<longrightarrow>
        keyed_by_hash e m' \<and>
        fst ` set (mapProposals m') \<subseteq> fst ` set (mapProposals m) \<and>
        fst ` set (mapFinalizedBudgets m') \<subseteq> fst ` set (mapFinalizedBudgets m))"

text \<open>Two proposals with the same hashed fields.\<close>

definition same_proposal :: "CBudgetProposal \<Rightarrow> CBudgetProposal \<Rightarrow> bool" where
  "same_proposal p' p \<longleftrightarrow>
     strProposalName p' = strProposalName p \<and> strURL p' = strURL p \<and>
     nBlockStart p' = nBlockStart p \<and> nBlockEnd p' = nBlockEnd p \<and>
     nAmount p' = nAmount p \<and> address p' = address p"

section \<open>Example states\<close>

text \<open>
  Concrete inputs on which the theorems below are instantiated: a mainnet-like environment
  with a cycle of 43200 blocks and 100 enabled masternodes, and finalized budgets built
  from a number of votes, a start block and a list of payments.
\<close>

definition env0 :: env where
  "env0 = \<lparr>GetTransaction = (\<lambda>_. None),
            GetIXConfirmations = (\<lambda>_. 0),
            mapBlockIndex = (\<lambda>_. None),
            chainActive_Contains = (\<lambda>_. False),
            chainActive_Height = 100000,
            IsNormalPaymentScript = (\<lambda>s. take 1 s = [118]),
            IsUnspendable = (\<lambda>s. take 1 s = [106]),
            IsPayToScriptHash = (\<lambda>s. take 1 s = [169]),
            nBudgetCycleBlocks = 43200,
            nBudgetFeeConfirmations = 6,
            nProposalEstablishmentTime = 86400,
            IsTestnet = False,
            UpgradeActive_POS = (\<lambda>h. 259201 \<le> h),
            UpgradeActive_ZC_V2 = (\<lambda>h. 1153160 \<le> h),
            BUDGET_FEE_TX = 5 * COIN,
            PROPOSAL_FEE_TX = 50 * COIN,
            BUDGET_VOTE_UPDATE_MIN = 3600,
            CountEnabled = 100,
            mnodeman_Find = (\<lambda>_. True),
            COutPoint_GetHash = op_hash,
            GetTime = 1600000000,
            GetAdjustedTime = 1600000000,
            GetBlockValue = (\<lambda>_. 5 * COIN),
            Hash_Proposal = (\<lambda>name url s e' a scr. of_int a),
            Hash_FinalizedBudget = (\<lambda>name s ps. of_int s + of_nat (length ps)),
            Hash_FinalizedBudgetVote = (\<lambda>vin h t. op_hash vin + h),
            Hash_BudgetVote = (\<lambda>vin h d t. op_hash vin + h + 1),
            CBudgetVote_CheckSignature = (\<lambda>_. True),
            CFinalizedBudgetVote_CheckSignature = (\<lambda>_. True),
            uint256_ToString = (\<lambda>_. ''h''),
            TRY_LOCK_cs_proposals = True,
            TRY_LOCK_cs_budgets = True,
            fLiteMode = False,
            fMasterNode = True,
            activeMasternode_vin = Some \<lparr>op_hash = 99, op_n = 0\<rparr>,
            strBudgetMode = ''auto'',
            rand = (\<lambda>_. 0),
            GetKeysFromSecret_ok = True,
            Sign_ok = True,
            CreateBudgetFeeTX = (\<lambda>_. None),
            CommitTransaction_ok = (\<lambda>_. True),
            masternodeSync_IsBlockchainSynced = True,
            masternodeSync_IsSynced = True,
            masternodeSync_PastBudget = True\<rparr>"

definition ex_vote :: "nat \<Rightarrow> CFinalizedBudgetVote" where
  "ex_vote i = \<lparr>fv_fValid = True, fv_fSynced = False,
                 fv_vin = \<lparr>op_hash = of_nat i, op_n = 0\<rparr>,
                 nBudgetHash = 0, fv_nTime = 1000\<rparr>"

definition ex_budget :: "nat \<Rightarrow> int \<Rightarrow> CTxBudgetPayment list \<Rightarrow> CFinalizedBudget" where
  "ex_budget n start ps =
     \<lparr>fAutoChecked = False, fb_fValid = True, fb_strInvalid = [],
      fb_mapVotes = map (\<lambda>i. (of_nat i, ex_vote i)) [0..<n],
      strBudgetName = ''main'', fb_nBlockStart = start, vecBudgetPayments = ps,
      fb_nFeeTXHash = 7, strProposals = [], fb_nTime = 0, mapPayment_History = []\<rparr>"

definition ex_pay :: "nat \<Rightarrow> CAmount \<Rightarrow> CTxBudgetPayment" where
  "ex_pay h a = \<lparr>nProposalHash = of_nat h, payee = [118, of_nat h], pay_nAmount = a\<rparr>"

definition ex_manager :: "(uint256, CFinalizedBudget) std_map \<Rightarrow> int \<Rightarrow> CBudgetManager" where
  "ex_manager fbs h =
     \<lparr>mapProposals = [], mapFinalizedBudgets = fbs, mapSeenProposals = [],
      mapSeenFinalizedBudgets = fbs, mapSeenProposalVotes = [],
      mapSeenFinalizedBudgetVotes = [], mapOrphanProposalVotes = [],
      mapOrphanFinalizedBudgetVotes = [], vecImmatureProposals = [],
      vecImmatureFinalizedBudgets = [], mapCollateralTxids = [], nBestHeight = h,
      askedForSourceProposalOrBudget = [], nSubmittedHeight = 0, nRandCalls = 0\<rparr>"



definition txB :: CTransaction where
  "txB = \<lparr>vout = [\<lparr>nValue = 3 * COIN, scriptPubKey = [118, 1]\<rparr>,
                  \<lparr>nValue = 40 * COIN, scriptPubKey = [118, 11]\<rparr>],
          nLockTime = 0\<rparr>"

definition budgetD :: CFinalizedBudget where
  "budgetD = (ex_budget 60 86400 [ex_pay 11 (40 * COIN), ex_pay 11 (40 * COIN)])
               \<lparr>mapPayment_History := [(5, 43200)]\<rparr>"

definition budgetL :: CFinalizedBudget where
  "budgetL = ex_budget 1 86400 [ex_pay 11 (40 * COIN)]"


definition ex_pvote :: "nat \<Rightarrow> VoteDirection \<Rightarrow> int64 \<Rightarrow> CBudgetVote" where
  "ex_pvote i d t = \<lparr>v_fValid = True, v_fSynced = False, v_nProposalHash = 21, nVote = d,
                      v_nTime = t, v_vin = \<lparr>op_hash = of_nat i, op_n = 0\<rparr>\<rparr>"

definition ex_proposal ::
  "uint256 \<Rightarrow> CAmount \<Rightarrow> (uint256, CBudgetVote) std_map \<Rightarrow> CBudgetProposal" where
  "ex_proposal fee a votes =
     \<lparr>nAlloted = 0, fValid = True, strInvalid = [], mapVotes = votes,
      strProposalName = ''p'', strURL = ''u'', nBlockStart = 86400, nBlockEnd = 129601,
      address = [118, 11], nAmount = a, nFeeTXHash = fee, nTime = 1500000000\<rparr>"

definition propV :: CBudgetProposal where
  "propV = ex_proposal 31 (50 * COIN) [(1, ex_pvote 1 VOTE_YES 1599990000)]"

definition env_skew :: env where
  "env_skew = env0\<lparr>GetTime := 1600000100\<rparr>"

definition tx_lock :: CTransaction where
  "tx_lock = \<lparr>vout = [\<lparr>nValue = 50 * COIN, scriptPubKey = findScript 5\<rparr>], nLockTime = 1\<rparr>"

definition env_lock :: env where
  "env_lock = env0\<lparr>GetTransaction := (\<lambda>h. if h = 7 then Some (tx_lock, 0) else None)\<rparr>"

definition env_small :: env where
  "env_small = env0\<lparr>CountEnabled := 10\<rparr>"

definition propP :: CBudgetProposal where
  "propP = ex_proposal 31 (50 * COIN)
             [(1, ex_pvote 1 VOTE_YES 1599990000), (2, ex_pvote 2 VOTE_YES 1599990000)]"

definition mgrP :: CBudgetManager where
  "mgrP = (ex_manager [] 86399)\<lparr>mapProposals := [(21, propP)]\<rparr>"

definition tx_coll :: CTransaction where
  "tx_coll = \<lparr>vout = [\<lparr>nValue = 5 * COIN, scriptPubKey = findScript 86401\<rparr>], nLockTime = 0\<rparr>"

definition env_chain :: env where
  "env_chain = env0\<lparr>GetTransaction := (\<lambda>h. if h = 7 then Some (tx_coll, 9) else None),
                     mapBlockIndex := (\<lambda>h. if h = 9 then Some \<lparr>nHeight = 99000, bi_nTime = 1590000000\<rparr>
                                            else None),
                     chainActive_Contains := (\<lambda>_. True)\<rparr>"

definition budgetC :: "int64 \<Rightarrow> CFinalizedBudget" where
  "budgetC t = (ex_budget 60 86400 [ex_pay 11 (40 * COIN)])\<lparr>fb_nTime := t\<rparr>"

definition mgrC :: "nat \<Rightarrow> int64 \<Rightarrow> CBudgetManager" where
  "mgrC n t = (ex_manager [] 86408)\<lparr>mapFinalizedBudgets := [(86401, budgetC t)],
                                     mapSeenFinalizedBudgets := [(86401, budgetC 0)],
                                     nRandCalls := n\<rparr>"

definition mgrC_checked :: "nat \<Rightarrow> CBudgetManager" where
  "mgrC_checked n = (ex_manager [] 86408)\<lparr>mapFinalizedBudgets :=
                        [(86401, (budgetC 1590000000)\<lparr>fAutoChecked := True\<rparr>)],
                      mapSeenFinalizedBudgets := [(86401, budgetC 0)],
                      nRandCalls := n\<rparr>"





definition mgrR :: "nat \<Rightarrow> int64 \<Rightarrow> CBudgetManager" where
  "mgrR n t = (ex_manager [] 86408)\<lparr>mapFinalizedBudgets := [(86401, budgetC t)], nRandCalls := n\<rparr>"

definition mgrR_checked :: "nat \<Rightarrow> CBudgetManager" where
  "mgrR_checked n = (ex_manager [] 86408)\<lparr>mapFinalizedBudgets :=
                        [(86401, (budgetC 1590000000)\<lparr>fAutoChecked := True\<rparr>)],
                      nRandCalls := n\<rparr>"

section \<open>Properties\<close>

subsection \<open>The operations on \<^verbatim>\<open>std::map\<close>\<close>

lemma map_of_assign: "map_of (assign k v m) = (map_of m)(k \<mapsto> v)"
  by (induction m) (auto simp: fun_eq_iff)

lemma count_assign: "count (assign k v m) k' = (k' = k \<or> count m k')"
  by (simp add: count_def map_of_assign)

lemma count_emplace: "count (emplace k v m) k' = (k' = k \<or> count m k')"
  by (auto simp: emplace_def count_assign)

lemma set_assign: "set (assign k v m) \<subseteq> insert (k, v) (set m)"
  by (induction m) (auto split: if_splits)

lemma keys_assign: "fst ` set (assign k v m) = insert k (fst ` set m)"
proof -
  have "fst ` set (assign k v m) = dom (map_of (assign k v m))"
    by (simp add: dom_map_of_conv_image_fst)
  also have "\<dots> = insert k (dom (map_of m))"
    by (simp add: map_of_assign)
  finally show ?thesis by (simp add: dom_map_of_conv_image_fst)
qed

lemma count_keys: "count m k = (k \<in> fst ` set m)"
  by (simp add: count_def map_of_eq_None_iff)

lemma distinct_assign:
  "k \<notin> fst ` set m \<Longrightarrow> distinct (map fst m) \<Longrightarrow> distinct (map fst (assign k v m))"
proof (induction m)
  case Nil
  then show ?case by simp
next
  case (Cons a m)
  obtain k' v' where a: "a = (k', v')" by (cases a)
  from Cons.prems have "k \<noteq> k'" and nin: "k \<notin> fst ` set m" and d: "distinct (map fst m)"
    and k': "k' \<notin> fst ` set m"
    by (auto simp: a)
  have "k' \<notin> fst ` set (assign k v m)"
    using k' \<open>k \<noteq> k'\<close> by (simp add: keys_assign)
  with Cons.IH [OF nin d] Cons.prems show ?case
    by (auto simp: a)
qed

lemma distinct_emplace:
  "distinct (map fst m) \<Longrightarrow> distinct (map fst (emplace k v m))"
  by (simp add: emplace_def distinct_assign count_keys)

lemma set_emplace: "set (emplace k v m) \<subseteq> insert (k, v) (set m)"
  using set_assign [of k v m] by (auto simp: emplace_def)

subsection \<open>No supported budget, no payment block\<close>

lemma highest_loop_None:
  assumes "\<forall>it \<in> set fbs. \<not> (0 < GetVoteCount (snd it) \<and> covers (snd it) h)"
    and "0 \<le> hv"
  shows "GetBudgetWithHighestVoteCount_loop h fbs hv p = p"
  using assms
proof (induction fbs arbitrary: hv p)
  case Nil
  then show ?case by simp
next
  case (Cons it rest)
  from Cons.prems have no: "\<not> (0 < GetVoteCount (snd it) \<and> covers (snd it) h)"
    by simp
  with Cons.prems(2) have skip:
    "\<not> (GetVoteCount (snd it) > hv \<and> h \<ge> fb_nBlockStart (snd it) \<and> h \<le> GetBlockEnd (snd it))"
    by (auto simp: covers_def)
  from Cons.prems have rest: "\<forall>it \<in> set rest. \<not> (0 < GetVoteCount (snd it) \<and> covers (snd it) h)"
    by simp
  have "GetBudgetWithHighestVoteCount_loop h (it # rest) hv p =
        GetBudgetWithHighestVoteCount_loop h rest hv p"
    using skip by (auto simp: Let_def)
  also have "\<dots> = p"
    by (rule Cons.IH [OF rest Cons.prems(2)])
  finally show ?case .
qed

lemma five_percent_nonneg: "0 \<le> int n sdiv 20"
  by (simp add: signed_divide_int_def sgn_if)

text \<open>
  C10. For every height \<open>h\<close>: if no active finalized budget with a strictly positive vote
  count covers \<open>h\<close>, then \<open>GetBudgetWithHighestVoteCount(h)\<close> returns null,
  \<open>GetHighestVoteCount(h)\<close> returns \<open>-1\<close> and \<open>IsBudgetPaymentBlock(h)\<close> returns false.
\<close>

theorem no_supported_budget_no_payment_block:
  assumes "\<forall>it \<in> set (mapFinalizedBudgets m). \<not> (0 < GetVoteCount (snd it) \<and> covers (snd it) h)"
  shows "GetBudgetWithHighestVoteCount m h = None \<and>
         GetHighestVoteCount m h = - 1 \<and>
         \<not> IsBudgetPaymentBlock e m h"
proof -
  have none: "GetBudgetWithHighestVoteCount m h = None"
    unfolding GetBudgetWithHighestVoteCount_def
    by (rule highest_loop_None [OF assms]) simp
  then have cnt: "GetHighestVoteCount m h = - 1"
    by (simp add: GetHighestVoteCount_def)
  have "\<not> (- 1 > int (CountEnabled e) sdiv 20)"
    using five_percent_nonneg [of "CountEnabled e"] by linarith
  with cnt have "\<not> IsBudgetPaymentBlock e m h"
    by (simp add: IsBudgetPaymentBlock_def IsBudgetPaymentBlock3_def Let_def)
  with none cnt show ?thesis by simp
qed

theorem no_supported_budget_no_payment_block_witness:
  "GetBudgetWithHighestVoteCount
     (ex_manager [(1, ex_budget 0 86400 [ex_pay 11 (50 * COIN)])] 86399) 86400 = None \<and>
   GetHighestVoteCount
     (ex_manager [(1, ex_budget 0 86400 [ex_pay 11 (50 * COIN)])] 86399) 86400 = - 1 \<and>
   \<not> IsBudgetPaymentBlock env0
     (ex_manager [(1, ex_budget 0 86400 [ex_pay 11 (50 * COIN)])] 86399) 86400"
proof -
  have h: "\<forall>it \<in> set (mapFinalizedBudgets (ex_manager [(1, ex_budget 0 86400 [ex_pay 11 (50 * COIN)])] 86399)).
      \<not> (0 < GetVoteCount (snd it) \<and> covers (snd it) 86400)"
    by (simp add: ex_manager_def ex_budget_def GetVoteCount_def)
  show ?thesis
    using h no_supported_budget_no_payment_block [OF h, of env0] by blast
qed

subsection \<open>Validating a block transaction against the budgets in band\<close>











subsection \<open>Double payments within a cycle\<close>

lemma IsPaidAlready_frame:
  "fb_nBlockStart (snd (IsPaidAlready fb k h)) = fb_nBlockStart fb"
  "vecBudgetPayments (snd (IsPaidAlready fb k h)) = vecBudgetPayments fb"
  "GetBlockEnd (snd (IsPaidAlready fb k h)) = GetBlockEnd fb"
  by (simp_all add: IsPaidAlready_def Let_def GetBlockEnd_def)

lemma IsPaidAlready_history:
  "mapPayment_History (snd (IsPaidAlready fb k h)) =
     emplace k h (filter (\<lambda>it. covers fb (snd it)) (mapPayment_History fb))"
  by (auto simp: IsPaidAlready_def Let_def emplace_def covers_def not_less)

lemma IsPaidAlready_result:
  "fst (IsPaidAlready fb k h) = count (filter (\<lambda>it. covers fb (snd it)) (mapPayment_History fb)) k"
  by (auto simp: IsPaidAlready_def Let_def covers_def not_less)


lemma history_pruned:
  assumes "covers fb h"
  shows "\<forall>it \<in> set (mapPayment_History (snd (IsPaidAlready fb k h))). covers fb (snd it)"
  using assms set_emplace [of k h "filter (\<lambda>it. covers fb (snd it)) (mapPayment_History fb)"]
  by (auto simp: IsPaidAlready_history)

lemma IsTransactionValid_in_range:
  assumes "covers fb h"
  shows "CFinalizedBudget_IsTransactionValid fb tx h =
     (let p = vecBudgetPayments fb ! nat (h - fb_nBlockStart fb);
          paid = IsPaidAlready fb (nProposalHash p) h
      in (if fst paid then DoublePayment
          else if payment_found p tx then Valid else InValid, snd paid))"
  using assms
  by (auto simp: CFinalizedBudget_IsTransactionValid_def covers_def GetBlockEnd_def Let_def)

text \<open>
  C4. For a fixed finalized budget and cycle: \<open>CFinalizedBudget::IsTransactionValid\<close> at an
  in-range height \<open>h\<close> first prunes the entries of \<open>payment_history\<close> whose height lies
  outside \<open>[start_block, block_end]\<close>; then, if the proposal hash of the \<open>i\<close>-th payment
  (\<open>i = h - start_block\<close>) is not yet recorded, it records it and goes on to match the
  outputs. A second call in the same cycle, at a height whose payment names a recorded
  proposal hash, returns \<open>DoublePayment\<close>; each proposal hash occurs at most once in
  \<open>payment_history\<close>.
\<close>

theorem double_payment_refused:
  assumes h: "covers fb h" and h2: "covers fb h2"
    and same: "nProposalHash (vecBudgetPayments fb ! nat (h2 - fb_nBlockStart fb)) =
               nProposalHash (vecBudgetPayments fb ! nat (h - fb_nBlockStart fb))"
  shows "(let p = vecBudgetPayments fb ! nat (h - fb_nBlockStart fb);
              kept = filter (\<lambda>it. covers fb (snd it)) (mapPayment_History fb);
              r = CFinalizedBudget_IsTransactionValid fb tx h
          in (if count kept (nProposalHash p)
              then fst r = DoublePayment \<and> mapPayment_History (snd r) = kept
              else fst r = (if payment_found p tx then Valid else InValid) \<and>
                   mapPayment_History (snd r) = emplace (nProposalHash p) h kept) \<and>
             (\<forall>it \<in> set (mapPayment_History (snd r)). covers fb (snd it)) \<and>
             map_of (mapPayment_History (snd r)) (nProposalHash p) \<noteq> None \<and>
             fst (CFinalizedBudget_IsTransactionValid (snd r) tx2 h2) = DoublePayment \<and>
             (distinct (map fst (mapPayment_History fb)) \<longrightarrow>
                distinct (map fst (mapPayment_History (snd r)))))"
proof -
  define p where "p = vecBudgetPayments fb ! nat (h - fb_nBlockStart fb)"
  define kept where "kept = filter (\<lambda>it. covers fb (snd it)) (mapPayment_History fb)"
  define fb' where "fb' = snd (IsPaidAlready fb (nProposalHash p) h)"
  have r: "CFinalizedBudget_IsTransactionValid fb tx h =
           (if count kept (nProposalHash p) then DoublePayment
            else if payment_found p tx then Valid else InValid, fb')"
    by (simp add: IsTransactionValid_in_range [OF h] Let_def p_def kept_def fb'_def
          IsPaidAlready_result)
  have hist: "mapPayment_History fb' = emplace (nProposalHash p) h kept"
    by (simp add: fb'_def kept_def IsPaidAlready_history)
  have frame: "fb_nBlockStart fb' = fb_nBlockStart fb" "vecBudgetPayments fb' = vecBudgetPayments fb"
    "GetBlockEnd fb' = GetBlockEnd fb"
    by (simp_all add: fb'_def IsPaidAlready_frame)
  have cov: "\<And>x. covers fb' x = covers fb x"
    by (simp add: covers_def frame)
  have pruned: "\<forall>it \<in> set (mapPayment_History fb'). covers fb (snd it)"
    unfolding fb'_def by (rule history_pruned [OF h])
  have rec: "count (mapPayment_History fb') (nProposalHash p)"
    by (simp add: hist count_emplace)
  have a: "if count kept (nProposalHash p)
           then fst (CFinalizedBudget_IsTransactionValid fb tx h) = DoublePayment \<and>
                mapPayment_History fb' = kept
           else fst (CFinalizedBudget_IsTransactionValid fb tx h) =
                  (if payment_found p tx then Valid else InValid) \<and>
                mapPayment_History fb' = emplace (nProposalHash p) h kept"
    by (simp add: r hist) (simp add: emplace_def)
  have keep': "filter (\<lambda>it. covers fb (snd it)) (mapPayment_History fb') = mapPayment_History fb'"
    using pruned by (simp add: filter_id_conv)
  have second: "fst (CFinalizedBudget_IsTransactionValid fb' tx2 h2) = DoublePayment"
    using h2 rec same
    by (simp add: IsTransactionValid_in_range cov Let_def IsPaidAlready_result keep' frame p_def)
  have dist: "distinct (map fst (mapPayment_History fb)) \<longrightarrow> distinct (map fst (mapPayment_History fb'))"
    by (simp add: hist kept_def distinct_emplace distinct_map_filter)
  have snd_r: "snd (CFinalizedBudget_IsTransactionValid fb tx h) = fb'"
    by (simp add: r)
  show ?thesis
    unfolding Let_def p_def [symmetric] kept_def [symmetric] snd_r
    using a pruned rec [unfolded count_def] second dist by simp
qed


theorem double_payment_refused_witness:
  "fst (CFinalizedBudget_IsTransactionValid budgetD txB 86400) = Valid \<and>
   mapPayment_History (snd (CFinalizedBudget_IsTransactionValid budgetD txB 86400)) = [(11, 86400)] \<and>
   fst (CFinalizedBudget_IsTransactionValid
          (snd (CFinalizedBudget_IsTransactionValid budgetD txB 86400)) txB 86401) = DoublePayment"
proof -
  have c1: "covers budgetD 86400" and c2: "covers budgetD 86401"
    by (simp_all add: covers_def budgetD_def ex_budget_def GetBlockEnd_def)
  have same: "nProposalHash (vecBudgetPayments budgetD ! nat (86401 - fb_nBlockStart budgetD)) =
              nProposalHash (vecBudgetPayments budgetD ! nat (86400 - fb_nBlockStart budgetD))"
    by (simp add: budgetD_def ex_budget_def)
  have kept: "filter (\<lambda>it. covers budgetD (snd it)) (mapPayment_History budgetD) = []"
    by (simp add: covers_def budgetD_def ex_budget_def GetBlockEnd_def)
  have p: "vecBudgetPayments budgetD ! nat (86400 - fb_nBlockStart budgetD) = ex_pay 11 (40 * COIN)"
    by (simp add: budgetD_def ex_budget_def)
  have found: "payment_found (ex_pay 11 (40 * COIN)) txB"
    by (simp add: payment_found_def ex_pay_def txB_def)
  have hp: "nProposalHash (ex_pay 11 (40 * COIN)) = 11"
    by (simp add: ex_pay_def)
  show ?thesis
    using double_payment_refused [OF c1 c2 same, of txB txB]
    by (simp add: Let_def kept p found count_def emplace_def hp)
qed

subsection \<open>Filling the block payee\<close>












subsection \<open>Votes: the retained time never decreases\<close>

lemma sint_sub_no_wrap:
  fixes a b :: int64
  assumes "sint b \<le> sint a" and "sint a - sint b < 2 ^ 63"
  shows "sint (a - b) = sint a - sint b"
proof -
  have "sint (a - b) = signed_take_bit 63 (sint a - sint b)"
    by (simp add: sint_word_ariths)
  also have "\<dots> = sint a - sint b"
    using assms by (intro signed_take_bit_int_eq_self) simp_all
  finally show ?thesis .
qed

lemma too_soon_detected:
  fixes a b m :: int64
  assumes "sint b \<le> sint a" and "sint a - sint b < sint m"
  shows "sint (a - b) < sint m"
proof -
  have "sint m < 2 ^ 63" using sint_lt [of m] by simp
  with assms have "sint (a - b) = sint a - sint b"
    by (intro sint_sub_no_wrap) simp_all
  with assms show ?thesis by simp
qed

lemma too_far_detected:
  fixes t now :: int64
  assumes "sint t > sint now + 3600"
  shows "sint t > sint (now + 60 * 60)"
proof -
  have "sint t < 2 ^ 63" using sint_lt [of t] by simp
  with assms have small: "sint now + 3600 < 2 ^ 63" by simp
  have ge: "- (2 ^ 63) \<le> sint now" using sint_ge [of now] by simp
  have "sint (now + 60 * 60) = signed_take_bit 63 (sint now + sint (3600 :: int64))"
    by (simp add: sint_word_ariths)
  also have "sint (3600 :: int64) = 3600" by simp
  also have "signed_take_bit 63 (sint now + 3600) = sint now + 3600"
    using small ge by (intro signed_take_bit_int_eq_self) simp_all
  finally show ?thesis using assms by simp
qed


lemma proposal_vote_rejected:
  assumes "(\<exists>old. map_of (mapVotes p) (COutPoint_GetHash e (v_vin vote)) = Some old \<and>
              (sint (v_nTime vote) < sint (v_nTime old) \<or>
               sint (v_nTime vote) - sint (v_nTime old) < sint (BUDGET_VOTE_UPDATE_MIN e))) \<or>
           sint (v_nTime vote) > sint (GetTime e) + 3600"
  shows "\<not> fst (CBudgetProposal_AddOrUpdateVote e p vote err) \<and>
         snd (snd (CBudgetProposal_AddOrUpdateVote e p vote err)) = p"
  using assms too_far_detected [of "GetTime e" "v_nTime vote"]
  by (auto simp: CBudgetProposal_AddOrUpdateVote_def Let_def not_less split: option.splits
        dest: too_soon_detected [of _ "v_nTime vote" "BUDGET_VOTE_UPDATE_MIN e"])

lemma proposal_vote_monotone:
  assumes "map_of (mapVotes p) k = Some old"
  shows "\<exists>new. map_of (mapVotes (snd (snd (CBudgetProposal_AddOrUpdateVote e p vote err)))) k = Some new \<and>
               sint (v_nTime old) \<le> sint (v_nTime new)"
  using assms
  by (auto simp: CBudgetProposal_AddOrUpdateVote_def Let_def map_of_assign split: option.splits)

lemma finalized_vote_rejected:
  assumes "(\<exists>old. map_of (fb_mapVotes fb) (COutPoint_GetHash e (fv_vin vote)) = Some old \<and>
              (sint (fv_nTime vote) < sint (fv_nTime old) \<or>
               sint (fv_nTime vote) - sint (fv_nTime old) < sint (BUDGET_VOTE_UPDATE_MIN e))) \<or>
           sint (fv_nTime vote) > sint (GetTime e) + 3600"
  shows "\<not> fst (CFinalizedBudget_AddOrUpdateVote e fb vote err) \<and>
         snd (snd (CFinalizedBudget_AddOrUpdateVote e fb vote err)) = fb"
  using assms too_far_detected [of "GetTime e" "fv_nTime vote"]
  by (auto simp: CFinalizedBudget_AddOrUpdateVote_def Let_def not_less split: option.splits
        dest: too_soon_detected [of _ "fv_nTime vote" "BUDGET_VOTE_UPDATE_MIN e"])

lemma finalized_vote_monotone:
  assumes "map_of (fb_mapVotes fb) k = Some old"
  shows "\<exists>new. map_of (fb_mapVotes (snd (snd (CFinalizedBudget_AddOrUpdateVote e fb vote err)))) k = Some new \<and>
               sint (fv_nTime old) \<le> sint (fv_nTime new)"
  using assms
  by (auto simp: CFinalizedBudget_AddOrUpdateVote_def Let_def map_of_assign split: option.splits)


text \<open>
  C5, as the code has it. On proposals and on finalized budgets alike, \<open>AddOrUpdateVote\<close>
  rejects (returning false, with the object and its vote map unchanged) any vote whose time
  is older than the time of the vote retained for the same voter, or less than
  \<open>BUDGET_VOTE_UPDATE_MIN\<close> newer than it, or more than one hour ahead of \<open>GetTime()\<close>,
  the node's own clock. Consequently the time of the vote retained for a voter never
  decreases. The times are signed 64-bit values and the statement holds with the
  wrap-around of the machine arithmetic.
\<close>

theorem vote_time_never_decreases:
  "(((\<exists>old. map_of (mapVotes p) (COutPoint_GetHash e (v_vin v)) = Some old \<and>
          (sint (v_nTime v) < sint (v_nTime old) \<or>
           sint (v_nTime v) - sint (v_nTime old) < sint (BUDGET_VOTE_UPDATE_MIN e))) \<or>
      sint (v_nTime v) > sint (GetTime e) + 3600) \<longrightarrow>
     \<not> fst (CBudgetProposal_AddOrUpdateVote e p v err) \<and>
     snd (snd (CBudgetProposal_AddOrUpdateVote e p v err)) = p) \<and>
   (\<forall>k old. map_of (mapVotes p) k = Some old \<longrightarrow>
      (\<exists>new. map_of (mapVotes (snd (snd (CBudgetProposal_AddOrUpdateVote e p v err)))) k = Some new \<and>
             sint (v_nTime old) \<le> sint (v_nTime new))) \<and>
   (((\<exists>old. map_of (fb_mapVotes fb) (COutPoint_GetHash e (fv_vin fv)) = Some old \<and>
          (sint (fv_nTime fv) < sint (fv_nTime old) \<or>
           sint (fv_nTime fv) - sint (fv_nTime old) < sint (BUDGET_VOTE_UPDATE_MIN e))) \<or>
      sint (fv_nTime fv) > sint (GetTime e) + 3600) \<longrightarrow>
     \<not> fst (CFinalizedBudget_AddOrUpdateVote e fb fv err) \<and>
     snd (snd (CFinalizedBudget_AddOrUpdateVote e fb fv err)) = fb) \<and>
   (\<forall>k old. map_of (fb_mapVotes fb) k = Some old \<longrightarrow>
      (\<exists>new. map_of (fb_mapVotes (snd (snd (CFinalizedBudget_AddOrUpdateVote e fb fv err)))) k = Some new \<and>
             sint (fv_nTime old) \<le> sint (fv_nTime new)))"
  using proposal_vote_rejected [of p e v err] proposal_vote_monotone [of p _ _ e v err]
    finalized_vote_rejected [of fb e fv err] finalized_vote_monotone [of fb _ _ e fv err]
  by blast

theorem vote_time_never_decreases_witness:
  "\<not> fst (CBudgetProposal_AddOrUpdateVote env0 propV (ex_pvote 1 VOTE_NO 1599990100) []) \<and>
   snd (snd (CBudgetProposal_AddOrUpdateVote env0 propV (ex_pvote 1 VOTE_NO 1599990100) [])) = propV \<and>
   \<not> fst (CFinalizedBudget_AddOrUpdateVote env0 budgetL ((ex_vote 0)\<lparr>fv_nTime := 1600003601\<rparr>) []) \<and>
   snd (snd (CFinalizedBudget_AddOrUpdateVote env0 budgetL ((ex_vote 0)\<lparr>fv_nTime := 1600003601\<rparr>) [])) = budgetL"
proof -
  have a: "\<exists>old. map_of (mapVotes propV) (COutPoint_GetHash env0 (v_vin (ex_pvote 1 VOTE_NO 1599990100))) = Some old \<and>
          (sint (v_nTime (ex_pvote 1 VOTE_NO 1599990100)) < sint (v_nTime old) \<or>
           sint (v_nTime (ex_pvote 1 VOTE_NO 1599990100)) - sint (v_nTime old) < sint (BUDGET_VOTE_UPDATE_MIN env0))"
    by (simp add: propV_def ex_proposal_def ex_pvote_def env0_def)
  have b: "sint (fv_nTime ((ex_vote 0)\<lparr>fv_nTime := 1600003601\<rparr>)) > sint (GetTime env0) + 3600"
    by (simp add: env0_def)
  show ?thesis
    using vote_time_never_decreases [of propV env0 "ex_pvote 1 VOTE_NO 1599990100" "[]"
        budgetL "(ex_vote 0)\<lparr>fv_nTime := 1600003601\<rparr>"] a b
    by blast
qed


text \<open>
  C5 as stated names the adjusted clock. The code compares with \<open>GetTime()\<close>: when the
  adjusted clock is behind the node's clock, a vote more than one hour ahead of the
  adjusted clock is accepted and stored.
\<close>

theorem vote_clock_counterexample:
  "sint (v_nTime (ex_pvote 2 VOTE_YES 1600003650)) > sint (GetAdjustedTime env_skew) + 3600 \<and>
   fst (CBudgetProposal_AddOrUpdateVote env_skew propV (ex_pvote 2 VOTE_YES 1600003650) []) \<and>
   mapVotes (snd (snd (CBudgetProposal_AddOrUpdateVote env_skew propV (ex_pvote 2 VOTE_YES 1600003650) []))) =
     [(1, ex_pvote 1 VOTE_YES 1599990000), (2, ex_pvote 2 VOTE_YES 1600003650)]"
  by (simp add: CBudgetProposal_AddOrUpdateVote_def env_skew_def env0_def propV_def ex_proposal_def
        ex_pvote_def Let_def)

subsection \<open>The collateral validator\<close>



lemma collateral_early_return_keeps_strError:
  assumes "GetTransaction e txh = Some (tx, bh)" and "vout tx = [] \<or> nLockTime tx \<noteq> 0"
  shows "IsBudgetCollateralValid e txh h err t c fin = (False, err, t, c)"
  using assms by (auto simp: IsBudgetCollateralValid_def Let_def)

text \<open>
  C3. \<open>IsBudgetCollateralValid\<close> succeeds iff the transaction is found, has an output, has
  locktime 0, every output is a normal payment or unspendable, some output carries the
  script \<open>OP_RETURN\<close> and the pushed expected hash with at least the fee, and the
  confirmations reach the required number (\<open>IsBudgetCollateralValid_success_iff\<close>). On
  failure it is to yield a textual reason: the two early returns (no output, locktime not
  0) leave \<^verbatim>\<open>strError\<close> as the caller passed it. Here the caller passes the empty string,
  as every caller in the file does, and the collateral has locktime 1: the function fails
  and the reason is empty.
\<close>

theorem collateral_failure_without_reason:
  "IsBudgetCollateralValid env_lock 7 5 [] 0 0 False = (False, [], 0, 0)"
  by (simp add: IsBudgetCollateralValid_def env_lock_def tx_lock_def Let_def)

subsection \<open>Selecting the budget\<close>

lemma GetBudget_loop_bound:
  "alloc \<le> tb \<Longrightarrow>
   alloc + sum_list (map (\<lambda>v. nAmount (snd (snd v))) (filter fst (GetBudget_loop e S E n tb ps alloc)))
     \<le> tb"
proof (induction ps arbitrary: alloc)
  case Nil
  then show ?case by simp
next
  case (Cons it rest)
  show ?case
  proof (cases "IsPassing e (snd it) S E n \<and> nAmount (snd it) + alloc \<le> tb")
    case True
    then have "alloc + nAmount (snd it) \<le> tb" by simp
    from Cons.IH [OF this] True show ?thesis by (simp add: Let_def add.assoc)
  next
    case False
    with Cons.IH [OF Cons.prems] show ?thesis by (auto simp: Let_def)
  qed
qed

lemma GetBudget_within_budget:
  assumes "0 \<le> GetTotalBudget e (nBestHeight m - nBestHeight m smod nBudgetCycleBlocks e + nBudgetCycleBlocks e)"
  shows "sum_list (map (\<lambda>it. nAmount (snd it)) (fst (GetBudget e m))) \<le>
         GetTotalBudget e (nBestHeight m - nBestHeight m smod nBudgetCycleBlocks e + nBudgetCycleBlocks e)"
proof (cases "nBestHeight m \<le> 0")
  case True
  with assms show ?thesis by (simp add: GetBudget_def)
next
  case False
  then show ?thesis
    using GetBudget_loop_bound [OF assms, of e]
    by (simp add: GetBudget_def Let_def comp_def)
qed

lemma cycle_86399: "(86399::int) - 86399 smod 43200 + 43200 = 86400"
  by (simp add: signed_modulo_int_def)

lemma propP_clean: "CBudgetProposal_CleanAndRemove e' propP = propP" if "mnodeman_Find e' = (\<lambda>_. True)"
  using that by (simp add: CBudgetProposal_CleanAndRemove_def propP_def ex_proposal_def ex_pvote_def)

lemma propP_net: "GetYeas propP = 2" "GetNays propP = 0"
  by (simp_all add: GetYeas_def GetNays_def CBudgetProposal_GetVoteCount_def propP_def
        ex_proposal_def ex_pvote_def)

lemma propP_established: "IsEstablished env0 propP"
  by (simp add: IsEstablished_def propP_def ex_proposal_def env0_def)

lemma total_86400: "GetTotalBudget env0 86400 = 648000 * COIN"
  by (simp add: GetTotalBudget_def env0_def)

lemma GetBudget_first:
  "GetBudget env_small mgrP =
     ([(21, propP\<lparr>nAlloted := 50 * COIN\<rparr>)],
      mgrP\<lparr>mapProposals := [(21, propP\<lparr>nAlloted := 50 * COIN\<rparr>)]\<rparr>)"
proof -
  have find: "mnodeman_Find env_small = (\<lambda>_. True)"
    by (simp add: env_small_def env0_def)
  have est: "IsEstablished env_small propP"
    by (simp add: IsEstablished_def propP_def ex_proposal_def env_small_def env0_def)
  have pass: "IsPassing env_small propP 86400 129599 10"
    by (simp add: IsPassing_def propP_net est signed_divide_int_def)
       (simp add: propP_def ex_proposal_def)
  have tot: "GetTotalBudget env_small 86400 = 648000 * COIN"
    by (simp add: GetTotalBudget_def env_small_def env0_def)
  have amt: "nAmount propP = 50 * COIN"
    by (simp add: propP_def ex_proposal_def)
  have params: "nBestHeight mgrP = 86399" "mapProposals mgrP = [(21, propP)]"
    "nBudgetCycleBlocks env_small = 43200" "int (CountEnabled env_small) = 10"
    by (simp_all add: mgrP_def ex_manager_def env_small_def env0_def)
  show ?thesis
    unfolding GetBudget_def Let_def params
    by (simp add: cycle_86399 std_sort_def propP_clean [OF find] pass tot amt COIN_def)
qed

lemma GetBudget_second:
  "GetBudget env0 (mgrP\<lparr>mapProposals := [(21, propP\<lparr>nAlloted := 50 * COIN\<rparr>)]\<rparr>) =
     ([], mgrP\<lparr>mapProposals := [(21, propP\<lparr>nAlloted := 50 * COIN\<rparr>)]\<rparr>)"
proof -
  let ?p = "propP\<lparr>nAlloted := 50 * COIN\<rparr>"
  have clean: "CBudgetProposal_CleanAndRemove env0 ?p = ?p"
    by (simp add: CBudgetProposal_CleanAndRemove_def propP_def ex_proposal_def ex_pvote_def env0_def)
  have net: "GetYeas ?p = 2" "GetNays ?p = 0"
    by (simp_all add: GetYeas_def GetNays_def CBudgetProposal_GetVoteCount_def propP_def
          ex_proposal_def ex_pvote_def)
  have nopass: "\<not> IsPassing env0 ?p 86400 129599 100"
    by (simp add: IsPassing_def net signed_divide_int_def)
  have params: "nBestHeight (mgrP\<lparr>mapProposals := [(21, ?p)]\<rparr>) = 86399"
    "nBudgetCycleBlocks env0 = 43200" "int (CountEnabled env0) = 100"
    by (simp_all add: mgrP_def ex_manager_def env0_def)
  show ?thesis
    unfolding GetBudget_def Let_def params
    by (simp add: cycle_86399 std_sort_def clean nopass)
qed

text \<open>
  C2. \<open>GetBudget\<close> sorts the active proposals by descending net yes count and returns, in
  that order, the passing proposals that fit the cycle budget; the selected amounts never
  exceed the budget (\<open>GetBudget_within_budget\<close>); skipped proposals are to get allotted 0.
  A proposal skipped because it does not fit is set to 0, but one skipped because it is not
  passing is left alone. Here a proposal of 50 COIN with two yes votes is selected while 10
  masternodes are enabled (allotted 50 COIN); with 100 masternodes enabled the next call
  skips it as not passing, and its allotted amount is still 50 COIN.
\<close>

theorem GetBudget_skipped_keeps_allotted:
  "fst (GetBudget env_small mgrP) = [(21, propP\<lparr>nAlloted := 50 * COIN\<rparr>)] \<and>
   fst (GetBudget env0 (snd (GetBudget env_small mgrP))) = [] \<and>
   map (\<lambda>it. nAlloted (snd it)) (mapProposals (snd (GetBudget env0 (snd (GetBudget env_small mgrP))))) =
     [50 * COIN]"
  by (simp add: GetBudget_first GetBudget_second)

subsection \<open>The auto-check latch\<close>

lemma budgetC_collateral:
  "IsBudgetCollateralValid env_chain 7 86401 [] t 0 True = (True, [], 1590000000, 1001)"
  by (simp add: IsBudgetCollateralValid_def env_chain_def env0_def tx_coll_def Let_def
        collateral_confirmations_def findScript_def COIN_def)

lemma budgetC_hash: "CFinalizedBudget_GetHash env_chain (budgetC t) = 86401"
  by (simp add: CFinalizedBudget_GetHash_def budgetC_def ex_budget_def env_chain_def env0_def)

lemma budgetC_valid:
  "CFinalizedBudget_UpdateValid env_chain (budgetC t) 86408 True = (True, budgetC 1590000000)"
proof -
  have tb: "GetTotalBudget env_chain 86400 = 648000 * COIN"
    by (simp add: GetTotalBudget_def env_chain_def env0_def)
  have fields: "fb_nBlockStart (budgetC t) = 86400" "fb_nFeeTXHash (budgetC t) = 7"
    "strBudgetName (budgetC t) = ''main''" "GetBlockEnd (budgetC t) = 86400"
    "length (vecBudgetPayments (budgetC t)) = 1" "GetTotalPayout (budgetC t) = 40 * COIN"
    "fb_nTime (budgetC t) = t"
    by (simp_all add: budgetC_def ex_budget_def GetBlockEnd_def GetTotalPayout_def ex_pay_def)
  have c: "nBudgetCycleBlocks env_chain = 43200"
    by (simp add: env_chain_def env0_def)
  have upd: "(budgetC t)\<lparr>fb_nTime := 1590000000, fb_fValid := True, fb_strInvalid := []\<rparr> =
             budgetC 1590000000"
    by (simp add: budgetC_def ex_budget_def)
  show ?thesis
    unfolding CFinalizedBudget_UpdateValid_def Let_def fields c budgetC_hash budgetC_collateral tb
    by (simp add: signed_modulo_int_def COIN_def upd)
qed


lemma mgrC_GetBudget: "GetBudget env_chain (mgrC_checked n) = ([], mgrC_checked n)"
  by (simp add: GetBudget_def mgrC_checked_def ex_manager_def Let_def std_sort_def)

lemma mgrC_CheckAndVote: "CheckAndVote env_chain (mgrC n 1590000000) 86401 = mgrC_checked (Suc n)"
proof -
  have e: "fMasterNode env_chain" "activeMasternode_vin env_chain = Some \<lparr>op_hash = 99, op_n = 0\<rparr>"
    "rand env_chain (nRandCalls (mgrC n 1590000000)) = 0" "strBudgetMode env_chain = ''auto''"
    by (simp_all add: env_chain_def env0_def)
  have self: "map_of (mapFinalizedBudgets (mgrC n 1590000000)) 86401 = Some (budgetC 1590000000)"
    by (simp add: mgrC_def)
  have latch: "\<not> fAutoChecked (budgetC 1590000000)"
    by (simp add: budgetC_def ex_budget_def)
  have m2: "(mgrC n 1590000000)\<lparr>nRandCalls := Suc (nRandCalls (mgrC n 1590000000)),
              mapFinalizedBudgets := assign 86401 ((budgetC 1590000000)\<lparr>fAutoChecked := True\<rparr>)
                (mapFinalizedBudgets (mgrC n 1590000000))\<rparr> =
            mgrC_checked (Suc n)"
    by (simp add: mgrC_def mgrC_checked_def)
  show ?thesis
    unfolding CheckAndVote_def self option.case Let_def
    using latch by (simp add: e m2 mgrC_GetBudget std_sort_def)
qed

lemma mgrC_CheckAndRemove: "CheckAndRemove env_chain (mgrC n t) = mgrC (Suc n) 1590000000"
proof -
  have keys: "map fst (mapFinalizedBudgets (mgrC n t)) = [86401]"
    "map_of (mapFinalizedBudgets (mgrC n t)) 86401 = Some (budgetC t)"
    "nBestHeight (mgrC n t) = 86408"
    by (simp_all add: mgrC_def ex_manager_def)
  have m1: "(mgrC n t)\<lparr>mapFinalizedBudgets := assign 86401 (budgetC 1590000000) (mapFinalizedBudgets (mgrC n t))\<rparr> =
            mgrC n 1590000000"
    by (simp add: mgrC_def)
  have after: "map_of (mapFinalizedBudgets (mgrC_checked (Suc n))) 86401 =
               Some ((budgetC 1590000000)\<lparr>fAutoChecked := True\<rparr>)"
    by (simp add: mgrC_checked_def)
  have copy: "CFinalizedBudget_copy ((budgetC 1590000000)\<lparr>fAutoChecked := True\<rparr>) = budgetC 1590000000"
    by (simp add: CFinalizedBudget_copy_def budgetC_def ex_budget_def)
  have hash: "CFinalizedBudget_GetHash env_chain ((budgetC 1590000000)\<lparr>fAutoChecked := True\<rparr>) = 86401"
    by (simp add: CFinalizedBudget_GetHash_def budgetC_def ex_budget_def env_chain_def env0_def)
  have loop: "CheckAndRemove_budgets env_chain 86408 [86401] (mgrC n t) [] =
              (mgrC_checked (Suc n), [(86401, budgetC 1590000000)])"
    by (simp add: keys budgetC_valid m1 mgrC_CheckAndVote after copy hash emplace_def count_def)
  have fin: "(mgrC_checked (Suc n))\<lparr>mapFinalizedBudgets := [(86401, budgetC 1590000000)], mapProposals := []\<rparr> =
             mgrC (Suc n) 1590000000"
    by (simp add: mgrC_checked_def mgrC_def ex_manager_def)
  show ?thesis
    unfolding CheckAndRemove_def Let_def keys loop
    by (simp add: fin) (simp add: mgrC_checked_def mgrC_def ex_manager_def)
qed

text \<open>
  C8. The auto-check of a finalized budget held by the manager is to be one-shot: once
  \<open>CheckAndVote\<close> has passed its 1-in-4 gate and set the latch \<open>fAutoChecked\<close>, no later
  maintenance tick is to run the auto-check on that budget again. \<open>CheckAndRemove\<close> copies
  every valid budget into the map that replaces \<open>mapFinalizedBudgets\<close>, and the copy
  constructor clears the latch. Here a masternode in mode auto holds one valid finalized
  budget and \<open>rand()\<close> returns 0: \<open>CheckAndVote\<close> sets the latch and consumes one random
  number; after the tick the stored budget has the latch cleared; the next tick consumes a
  second random number, that is, it passes the latch test and runs the auto-check again.
\<close>

theorem auto_check_runs_again:
  "map (\<lambda>it. fAutoChecked (snd it)) (mapFinalizedBudgets (CheckAndVote env_chain (mgrC 0 1590000000) 86401)) = [True] \<and>
   nRandCalls (CheckAndVote env_chain (mgrC 0 1590000000) 86401) = 1 \<and>
   map (\<lambda>it. fAutoChecked (snd it)) (mapFinalizedBudgets (CheckAndRemove env_chain (mgrC 0 0))) = [False] \<and>
   nRandCalls (CheckAndRemove env_chain (mgrC 0 0)) = 1 \<and>
   nRandCalls (CheckAndRemove env_chain (CheckAndRemove env_chain (mgrC 0 0))) = 2"
  by (simp add: mgrC_CheckAndVote mgrC_CheckAndRemove)
     (simp add: mgrC_checked_def mgrC_def budgetC_def ex_budget_def)

theorem auto_check_runs_again_witness:
  "nRandCalls (CheckAndRemove env_chain (mgrC 0 0)) = 1 \<and>
   nRandCalls (CheckAndRemove env_chain (CheckAndRemove env_chain (mgrC 0 0))) = 2"
  using auto_check_runs_again by simp

subsection \<open>The validity of finalized budgets\<close>


























subsection \<open>Seen and active items\<close>

lemma keys_emplace: "fst ` set (emplace k v m) = insert k (fst ` set m)"
  by (auto simp: emplace_def keys_assign count_keys)

lemma keys_assign_present: "map_of m k = Some v \<Longrightarrow> fst ` set (assign k v' m) = fst ` set m"
proof -
  assume "map_of m k = Some v"
  then have "k \<in> fst ` set m" by (metis count_def count_keys option.distinct(1))
  then show ?thesis by (auto simp: keys_assign)
qed

lemma set_sort_insert: "set (sort_insert cmp x xs) = insert x (set xs)"
  by (induction xs) auto

lemma set_std_sort: "set (std_sort cmp xs) = set xs"
  by (induction xs) (simp_all add: std_sort_def set_sort_insert)

lemma frame_refl: "frame e m m"
  by (simp add: frame_def)

lemma frame_trans: "frame e a b \<Longrightarrow> frame e b c \<Longrightarrow> frame e a c"
  unfolding frame_def by (metis (no_types, lifting) subset_trans)

lemma frame_same:
  assumes "mapSeenProposals m' = mapSeenProposals m"
    and "mapSeenFinalizedBudgets m' = mapSeenFinalizedBudgets m"
    and "mapProposals m' = mapProposals m" and "mapFinalizedBudgets m' = mapFinalizedBudgets m"
  shows "frame e m m'"
  using assms by (simp add: frame_def keyed_by_hash_def)

lemma frame_then_same:
  assumes "frame e m m1"
    and "mapSeenProposals m2 = mapSeenProposals m1"
    and "mapSeenFinalizedBudgets m2 = mapSeenFinalizedBudgets m1"
    and "mapProposals m2 = mapProposals m1" and "mapFinalizedBudgets m2 = mapFinalizedBudgets m1"
  shows "frame e m m2"
  by (rule frame_trans [OF assms(1) frame_same [OF assms(2-5)]])

lemma hash_AddOrUpdateVote_p:
  "CBudgetProposal_GetHash e (snd (snd (CBudgetProposal_AddOrUpdateVote e p v err))) =
   CBudgetProposal_GetHash e p"
  by (simp add: CBudgetProposal_AddOrUpdateVote_def Let_def CBudgetProposal_GetHash_def
        split: option.splits)

lemma hash_AddOrUpdateVote_fb:
  "CFinalizedBudget_GetHash e (snd (snd (CFinalizedBudget_AddOrUpdateVote e fb v err))) =
   CFinalizedBudget_GetHash e fb"
  by (simp add: CFinalizedBudget_AddOrUpdateVote_def Let_def CFinalizedBudget_GetHash_def
        split: option.splits)

lemma same_proposal_hash: "same_proposal p' p \<Longrightarrow> CBudgetProposal_GetHash e p' = CBudgetProposal_GetHash e p"
  by (simp add: same_proposal_def CBudgetProposal_GetHash_def)

lemma same_proposal_trans: "same_proposal a b \<Longrightarrow> same_proposal b c \<Longrightarrow> same_proposal a c"
  by (simp add: same_proposal_def)

lemma same_IsHeavilyDownvoted: "same_proposal (snd (IsHeavilyDownvoted e p)) p"
  by (simp add: IsHeavilyDownvoted_def same_proposal_def)

lemma same_CheckStartEnd: "same_proposal (snd (CheckStartEnd e p)) p"
  by (simp add: CheckStartEnd_def same_proposal_def Let_def)

lemma same_CheckAmount: "same_proposal (snd (CheckAmount p t)) p"
  by (simp add: CheckAmount_def same_proposal_def)

lemma same_CheckAddress: "same_proposal (snd (CheckAddress e p)) p"
  by (simp add: CheckAddress_def same_proposal_def)

lemma same_IsWellFormed: "same_proposal (snd (IsWellFormed e p t)) p"
  unfolding IsWellFormed_def Let_def
  using same_CheckStartEnd [of e p] same_CheckAmount [of "snd (CheckStartEnd e p)" t]
    same_CheckAddress [of e "snd (CheckAmount (snd (CheckStartEnd e p)) t)"]
  by (auto intro: same_proposal_trans)

lemma same_IsExpired: "same_proposal (snd (IsExpired p h)) p"
  by (simp add: IsExpired_def same_proposal_def)

lemma same_UpdateValid: "same_proposal (snd (CBudgetProposal_UpdateValid e p h c)) p"
proof -
  let ?p0 = "p\<lparr>fValid := False\<rparr>"
  let ?d = "IsHeavilyDownvoted e ?p0"
  let ?w = "IsWellFormed e (snd ?d) (GetTotalBudget e (nBlockStart p))"
  let ?x = "IsExpired (snd ?w) h"
  have p0: "same_proposal ?p0 p" by (simp add: same_proposal_def)
  have d: "same_proposal (snd ?d) p"
    by (rule same_proposal_trans [OF same_IsHeavilyDownvoted p0])
  have w: "same_proposal (snd ?w) p"
    by (rule same_proposal_trans [OF same_IsWellFormed d])
  have x: "same_proposal (snd ?x) p"
    by (rule same_proposal_trans [OF same_IsExpired w])
  have upd: "same_proposal (q\<lparr>nTime := t, strInvalid := s\<rparr>) p"
    "same_proposal (q\<lparr>nTime := t, fValid := True, strInvalid := s\<rparr>) p"
    if "same_proposal q p" for q t s
    using that by (simp_all add: same_proposal_def)
  show ?thesis
    unfolding CBudgetProposal_UpdateValid_def Let_def
    using d w x upd [OF x] by (simp split: if_splits)
qed

lemma hash_UpdateValid_p:
  "CBudgetProposal_GetHash e (snd (CBudgetProposal_UpdateValid e p h c)) = CBudgetProposal_GetHash e p"
  by (rule same_proposal_hash [OF same_UpdateValid])

lemma hash_UpdateValid_fb:
  "CFinalizedBudget_GetHash e (snd (CFinalizedBudget_UpdateValid e fb h c)) = CFinalizedBudget_GetHash e fb"
  by (simp add: CFinalizedBudget_UpdateValid_def Let_def CFinalizedBudget_GetHash_def)

lemma hash_copy_p: "CBudgetProposal_GetHash e (CBudgetProposal_copy p) = CBudgetProposal_GetHash e p"
  by (simp add: CBudgetProposal_copy_def CBudgetProposal_GetHash_def)

lemma hash_copy_fb: "CFinalizedBudget_GetHash e (CFinalizedBudget_copy fb) = CFinalizedBudget_GetHash e fb"
  by (simp add: CFinalizedBudget_copy_def CFinalizedBudget_GetHash_def)

lemma hash_clean_p:
  "CBudgetProposal_GetHash e (CBudgetProposal_CleanAndRemove e' p) = CBudgetProposal_GetHash e p"
  by (simp add: CBudgetProposal_CleanAndRemove_def CBudgetProposal_GetHash_def)


lemma GetBudget_loop_same:
  "v \<in> set (GetBudget_loop e S E n tb ps al) \<Longrightarrow>
   \<exists>it \<in> set ps. fst (snd v) = fst it \<and> same_proposal (snd (snd v)) (snd it)"
proof (induction ps arbitrary: al)
  case Nil
  then show ?case by simp
next
  case (Cons it rest)
  have self: "same_proposal ((snd it)\<lparr>nAlloted := a\<rparr>) (snd it)" "same_proposal (snd it) (snd it)" for a
    by (simp_all add: same_proposal_def)
  from Cons.prems consider
    (hd) "fst (snd v) = fst it" "same_proposal (snd (snd v)) (snd it)"
    | (tl) al' where "v \<in> set (GetBudget_loop e S E n tb rest al')"
    using self by (auto simp: Let_def split: if_splits)
  then show ?case
  proof cases
    case hd
    then show ?thesis by auto
  next
    case tl
    from Cons.IH [OF this] show ?thesis by auto
  qed
qed

lemma GetBudget_frame: "frame e m (snd (GetBudget e m))"
proof (cases "nBestHeight m \<le> 0")
  case True
  then show ?thesis by (simp add: GetBudget_def frame_refl)
next
  case False
  define cleaned where "cleaned = map (\<lambda>it. (fst it, CBudgetProposal_CleanAndRemove e (snd it))) (mapProposals m)"
  define S where "S = nBestHeight m - nBestHeight m smod nBudgetCycleBlocks e + nBudgetCycleBlocks e"
  define visited where "visited = GetBudget_loop e S (S + nBudgetCycleBlocks e - 1) (int (CountEnabled e))
      (GetTotalBudget e S) (std_sort (\<lambda>a b. PtrHigherYes (snd a) (snd b)) cleaned) 0"
  define written where "written = map (\<lambda>it. (fst it, case map_of (map snd visited) (fst it) of
      Some p \<Rightarrow> p | None \<Rightarrow> snd it)) cleaned"
  have res: "snd (GetBudget e m) = m\<lparr>mapProposals := written\<rparr>"
    using False
    by (simp add: GetBudget_def Let_def written_def visited_def S_def cleaned_def)
  have keys: "map fst written = map fst (mapProposals m)"
    by (simp add: written_def cleaned_def comp_def)
  have keyed: "list_all (\<lambda>it. fst it = CBudgetProposal_GetHash e (snd it)) written"
    if wf: "list_all (\<lambda>it. fst it = CBudgetProposal_GetHash e (snd it)) (mapProposals m)"
  proof -
    have cl: "fst it = CBudgetProposal_GetHash e (snd it)" if "it \<in> set cleaned" for it
      using that wf by (auto simp: cleaned_def list_all_iff hash_clean_p)
    have "fst w = CBudgetProposal_GetHash e (snd w)" if "w \<in> set written" for w
    proof -
      from that obtain it where it: "it \<in> set cleaned"
        and w: "w = (fst it, case map_of (map snd visited) (fst it) of Some p \<Rightarrow> p | None \<Rightarrow> snd it)"
        by (auto simp: written_def)
      show ?thesis
      proof (cases "map_of (map snd visited) (fst it)")
        case None
        with w cl [OF it] show ?thesis by simp
      next
        case (Some p)
        then have "(fst it, p) \<in> set (map snd visited)" by (rule map_of_SomeD)
        then obtain v where v: "v \<in> set visited" "snd v = (fst it, p)" by auto
        from GetBudget_loop_same [OF v(1) [unfolded visited_def]]
        obtain it' where it': "it' \<in> set cleaned" "fst (snd v) = fst it'"
          "same_proposal (snd (snd v)) (snd it')"
          by (auto simp: set_std_sort)
        from v(2) it' have "fst it = fst it'" "same_proposal p (snd it')" by simp_all
        with cl [OF it'(1)] same_proposal_hash [of p "snd it'" e] w Some
        show ?thesis by simp
      qed
    qed
    then show ?thesis by (simp add: list_all_iff)
  qed
  have "fst ` set written = fst ` set (mapProposals m)"
    using keys by (metis set_map)
  with keyed show ?thesis
    unfolding res frame_def keyed_by_hash_def by simp
qed

lemma GetBudget_other:
  "mapFinalizedBudgets (snd (GetBudget e m)) = mapFinalizedBudgets m"
  "nBestHeight (snd (GetBudget e m)) = nBestHeight m"
  by (simp_all add: GetBudget_def Let_def)


lemma frame_assign_p:
  assumes "map_of (mapProposals m) k = Some p"
    and "CBudgetProposal_GetHash e p' = CBudgetProposal_GetHash e p"
    and "mapProposals m' = assign k p' (mapProposals m)"
    and "mapFinalizedBudgets m' = mapFinalizedBudgets m"
    and "mapSeenProposals m' = mapSeenProposals m"
    and "mapSeenFinalizedBudgets m' = mapSeenFinalizedBudgets m"
  shows "frame e m m'"
proof -
  have mem: "(k, p) \<in> set (mapProposals m)" using assms(1) by (rule map_of_SomeD)
  have keys: "fst ` set (mapProposals m') = fst ` set (mapProposals m)"
    using assms(1,3) by (simp add: keys_assign_present)
  have "list_all (\<lambda>it. fst it = CBudgetProposal_GetHash e (snd it)) (mapProposals m')"
    if wf: "list_all (\<lambda>it. fst it = CBudgetProposal_GetHash e (snd it)) (mapProposals m)"
  proof -
    from wf mem have "k = CBudgetProposal_GetHash e p" by (auto simp: list_all_iff)
    with assms(2) have "k = CBudgetProposal_GetHash e p'" by simp
    with wf set_assign [of k p' "mapProposals m"] show ?thesis
      unfolding assms(3) list_all_iff by auto
  qed
  with keys assms(4-6) show ?thesis
    by (simp add: frame_def keyed_by_hash_def)
qed

lemma frame_assign_fb:
  assumes "map_of (mapFinalizedBudgets m) k = Some fb"
    and "CFinalizedBudget_GetHash e fb' = CFinalizedBudget_GetHash e fb"
    and "mapFinalizedBudgets m' = assign k fb' (mapFinalizedBudgets m)"
    and "mapProposals m' = mapProposals m"
    and "mapSeenProposals m' = mapSeenProposals m"
    and "mapSeenFinalizedBudgets m' = mapSeenFinalizedBudgets m"
  shows "frame e m m'"
proof -
  have mem: "(k, fb) \<in> set (mapFinalizedBudgets m)" using assms(1) by (rule map_of_SomeD)
  have keys: "fst ` set (mapFinalizedBudgets m') = fst ` set (mapFinalizedBudgets m)"
    using assms(1,3) by (simp add: keys_assign_present)
  have "list_all (\<lambda>it. fst it = CFinalizedBudget_GetHash e (snd it)) (mapFinalizedBudgets m')"
    if wf: "list_all (\<lambda>it. fst it = CFinalizedBudget_GetHash e (snd it)) (mapFinalizedBudgets m)"
  proof -
    from wf mem have "k = CFinalizedBudget_GetHash e fb" by (auto simp: list_all_iff)
    with assms(2) have "k = CFinalizedBudget_GetHash e fb'" by simp
    with wf set_assign [of k fb' "mapFinalizedBudgets m"] show ?thesis
      unfolding assms(3) list_all_iff by auto
  qed
  with keys assms(4-6) show ?thesis
    by (simp add: frame_def keyed_by_hash_def)
qed

lemma UpdateProposal_frame: "frame e m (snd (snd (UpdateProposal e m v pfrom err)))"
proof (cases "map_of (mapProposals m) (v_nProposalHash v)")
  case None
  then show ?thesis
    by (auto simp: UpdateProposal_def Let_def intro!: frame_same)
next
  case (Some p)
  show ?thesis
    by (rule frame_assign_p [OF Some hash_AddOrUpdateVote_p [of e p v err]])
       (simp_all add: UpdateProposal_def Some Let_def)
qed

lemma UpdateFinalizedBudget_frame: "frame e m (snd (snd (UpdateFinalizedBudget e m v pfrom err)))"
proof (cases "map_of (mapFinalizedBudgets m) (nBudgetHash v)")
  case None
  then show ?thesis
    by (auto simp: UpdateFinalizedBudget_def Let_def intro!: frame_same)
next
  case (Some fb)
  show ?thesis
    by (rule frame_assign_fb [OF Some hash_AddOrUpdateVote_fb [of e fb v err]])
       (simp_all add: UpdateFinalizedBudget_def Some Let_def)
qed

lemma CheckOrphanVotes_proposals_frame: "frame e m (snd (CheckOrphanVotes_proposals e vs m))"
proof (induction vs arbitrary: m)
  case Nil
  then show ?case by (simp add: frame_refl)
next
  case (Cons it rest)
  have "frame e m (snd (CheckOrphanVotes_proposals e rest (snd (snd (UpdateProposal e m (snd it) False [])))))"
    by (rule frame_trans [OF UpdateProposal_frame Cons.IH])
  then show ?case by (simp add: Let_def)
qed

lemma CheckOrphanVotes_budgets_frame: "frame e m (snd (CheckOrphanVotes_budgets e vs m))"
proof (induction vs arbitrary: m)
  case Nil
  then show ?case by (simp add: frame_refl)
next
  case (Cons it rest)
  have "frame e m (snd (CheckOrphanVotes_budgets e rest (snd (snd (UpdateFinalizedBudget e m (snd it) False [])))))"
    by (rule frame_trans [OF UpdateFinalizedBudget_frame Cons.IH])
  then show ?case by (simp add: Let_def)
qed

lemma CheckOrphanVotes_frame: "frame e m (CheckOrphanVotes e m)"
proof -
  let ?a = "CheckOrphanVotes_proposals e (mapOrphanProposalVotes m) m"
  let ?m1 = "(snd ?a)\<lparr>mapOrphanProposalVotes := fst ?a\<rparr>"
  let ?b = "CheckOrphanVotes_budgets e (mapOrphanFinalizedBudgetVotes ?m1) ?m1"
  have 1: "frame e m ?m1"
    by (rule frame_then_same [OF CheckOrphanVotes_proposals_frame]) simp_all
  have 2: "frame e ?m1 ((snd ?b)\<lparr>mapOrphanFinalizedBudgetVotes := fst ?b\<rparr>)"
    by (rule frame_then_same [OF CheckOrphanVotes_budgets_frame]) simp_all
  show ?thesis
    unfolding CheckOrphanVotes_def Let_def by (rule frame_trans [OF 1 2])
qed

lemma SubmitVote_frame: "frame e m (SubmitVote e m k)"
proof -
  have "frame e m (AddSeenFinalizedBudgetVote e (snd (snd (UpdateFinalizedBudget e m v False []))) v)" for v
    by (rule frame_then_same [OF UpdateFinalizedBudget_frame])
       (simp_all add: AddSeenFinalizedBudgetVote_def)
  then show ?thesis
    by (auto simp: SubmitVote_def Let_def frame_refl UpdateFinalizedBudget_frame split: option.splits)
qed

lemma CheckAndVote_frame: "frame e m (CheckAndVote e m k)"
proof (cases "map_of (mapFinalizedBudgets m) k")
  case None
  then show ?thesis by (simp add: CheckAndVote_def frame_refl)
next
  case (Some self)
  let ?m1 = "m\<lparr>nRandCalls := nRandCalls m + 1\<rparr>"
  let ?m2 = "?m1\<lparr>mapFinalizedBudgets := assign k (self\<lparr>fAutoChecked := True\<rparr>) (mapFinalizedBudgets ?m1)\<rparr>"
  have m1: "frame e m ?m1" by (simp add: frame_same)
  have m2: "frame e m ?m2"
    by (rule frame_assign_fb [OF Some, of e "self\<lparr>fAutoChecked := True\<rparr>"])
       (simp_all add: CFinalizedBudget_GetHash_def)
  have g: "frame e m (snd (GetBudget e ?m2))"
    by (rule frame_trans [OF m2 GetBudget_frame])
  have s: "frame e m (SubmitVote e (snd (GetBudget e ?m2)) k)"
    by (rule frame_trans [OF g SubmitVote_frame])
  show ?thesis
    unfolding CheckAndVote_def Some option.case Let_def
    using m1 m2 g s frame_refl [of e m] by (simp split: if_splits)
qed

lemma frameD:
  assumes "frame e m m'" and "keyed_by_hash e m"
  shows "keyed_by_hash e m'"
    and "fst ` set (mapProposals m') \<subseteq> fst ` set (mapProposals m)"
    and "fst ` set (mapFinalizedBudgets m') \<subseteq> fst ` set (mapFinalizedBudgets m)"
  using assms by (simp_all add: frame_def)

lemma frame_seen:
  assumes "frame e m m'"
  shows "mapSeenProposals m' = mapSeenProposals m"
    and "mapSeenFinalizedBudgets m' = mapSeenFinalizedBudgets m"
  using assms by (simp_all add: frame_def)

lemma CheckAndRemove_budgets_seen:
  "mapSeenProposals (fst (CheckAndRemove_budgets e h ks m tmp)) = mapSeenProposals m \<and>
   mapSeenFinalizedBudgets (fst (CheckAndRemove_budgets e h ks m tmp)) = mapSeenFinalizedBudgets m"
proof (induction ks arbitrary: m tmp)
  case Nil
  then show ?case by simp
next
  case (Cons k ks)
  have cv: "mapSeenProposals (CheckAndVote e m'' k) = mapSeenProposals m''"
    "mapSeenFinalizedBudgets (CheckAndVote e m'' k) = mapSeenFinalizedBudgets m''" for m''
    using frame_seen [OF CheckAndVote_frame [of e m'' k]] by simp_all
  show ?case
    by (simp add: Let_def Cons.IH cv split: option.splits)
qed

lemma CheckAndRemove_budgets_inv:
  assumes "keyed_by_hash e m"
    and "fst ` set (mapFinalizedBudgets m) \<subseteq> K"
    and "\<forall>it \<in> set tmp. P it"
    and step: "\<And>fb. CFinalizedBudget_GetHash e fb \<in> K \<Longrightarrow>
                 P (CFinalizedBudget_GetHash e fb, CFinalizedBudget_copy fb)"
  shows "frame e m (fst (CheckAndRemove_budgets e h ks m tmp)) \<and>
         (\<forall>it \<in> set (snd (CheckAndRemove_budgets e h ks m tmp)). P it)"
  using assms(1-3)
proof (induction ks arbitrary: m tmp)
  case Nil
  then show ?case by (simp add: frame_refl)
next
  case (Cons k ks)
  show ?case
  proof (cases "map_of (mapFinalizedBudgets m) k")
    case None
    with Cons.IH [OF Cons.prems] show ?thesis by simp
  next
    case (Some fb)
    note old = Some
    let ?u = "CFinalizedBudget_UpdateValid e fb h True"
    let ?m1 = "m\<lparr>mapFinalizedBudgets := assign k (snd ?u) (mapFinalizedBudgets m)\<rparr>"
    have f1: "frame e m ?m1"
      by (rule frame_assign_fb [OF Some hash_UpdateValid_fb [of e fb h True]]) simp_all
    have k1: "keyed_by_hash e ?m1" and s1: "fst ` set (mapFinalizedBudgets ?m1) \<subseteq> K"
      using frameD [OF f1 Cons.prems(1)] Cons.prems(2) by auto
    show ?thesis
    proof (cases "fst ?u")
      case False
      from Cons.IH [OF k1 s1 Cons.prems(3)]
      have fr: "frame e ?m1 (fst (CheckAndRemove_budgets e h ks ?m1 tmp))"
        and r: "\<forall>it \<in> set (snd (CheckAndRemove_budgets e h ks ?m1 tmp)). P it"
        by simp_all
      have "frame e m (fst (CheckAndRemove_budgets e h ks ?m1 tmp))"
          by (rule frame_trans [OF f1 fr])
      with this r old False show ?thesis by (simp add: Let_def)
    next
      case True
      let ?m2 = "CheckAndVote e ?m1 k"
      have f2: "frame e m ?m2"
        by (rule frame_trans [OF f1 CheckAndVote_frame])
      have k2: "keyed_by_hash e ?m2" and s2: "fst ` set (mapFinalizedBudgets ?m2) \<subseteq> K"
        using frameD [OF f2 Cons.prems(1)] Cons.prems(2) by auto
      show ?thesis
      proof (cases "map_of (mapFinalizedBudgets ?m2) k")
        case None
        from Cons.IH [OF k2 s2 Cons.prems(3)]
        have fr: "frame e ?m2 (fst (CheckAndRemove_budgets e h ks ?m2 tmp))"
          and r: "\<forall>it \<in> set (snd (CheckAndRemove_budgets e h ks ?m2 tmp)). P it"
          by simp_all
        have "frame e m (fst (CheckAndRemove_budgets e h ks ?m2 tmp))"
          by (rule frame_trans [OF f2 fr])
        with this r old True None show ?thesis
          by (simp add: Let_def)
      next
        case (Some fb2)
        then have mem: "(k, fb2) \<in> set (mapFinalizedBudgets ?m2)" by (rule map_of_SomeD)
        with k2 have kh: "k = CFinalizedBudget_GetHash e fb2"
          by (auto simp: keyed_by_hash_def list_all_iff)
        from mem s2 have kK: "k \<in> K" by force
        let ?tmp = "emplace (CFinalizedBudget_GetHash e fb2) (CFinalizedBudget_copy fb2) tmp"
        have t: "\<forall>it \<in> set ?tmp. P it"
          using Cons.prems(3) step [of fb2] kh kK
            set_emplace [of "CFinalizedBudget_GetHash e fb2" "CFinalizedBudget_copy fb2" tmp]
          by auto
        from Cons.IH [OF k2 s2 t]
        have fr: "frame e ?m2 (fst (CheckAndRemove_budgets e h ks ?m2 ?tmp))"
          and r: "\<forall>it \<in> set (snd (CheckAndRemove_budgets e h ks ?m2 ?tmp)). P it"
          by simp_all
        have "frame e m (fst (CheckAndRemove_budgets e h ks ?m2 ?tmp))"
          by (rule frame_trans [OF f2 fr])
        with this r old True Some show ?thesis
          by (simp add: Let_def)
      qed
    qed
  qed
qed

lemma CheckAndRemove_proposals_inv:
  assumes "\<forall>it \<in> set ps. fst it = CBudgetProposal_GetHash e (snd it)"
    and "fst ` set ps \<subseteq> K"
    and "\<forall>it \<in> set tmp. P it"
    and step: "\<And>p. CBudgetProposal_GetHash e p \<in> K \<Longrightarrow>
                 P (CBudgetProposal_GetHash e p, CBudgetProposal_copy p)"
  shows "\<forall>it \<in> set (CheckAndRemove_proposals e h ps tmp). P it"
  using assms(1-3)
proof (induction ps arbitrary: tmp)
  case Nil
  then show ?case by simp
next
  case (Cons it rest)
  let ?u = "CBudgetProposal_UpdateValid e (snd it) h True"
  let ?tmp = "emplace (CBudgetProposal_GetHash e (snd ?u)) (CBudgetProposal_copy (snd ?u)) tmp"
  from Cons.prems(1,2) have it: "fst it = CBudgetProposal_GetHash e (snd it)" "fst it \<in> K"
    and rest: "\<forall>it \<in> set rest. fst it = CBudgetProposal_GetHash e (snd it)"
      "fst ` set rest \<subseteq> K"
    by auto
  have "CBudgetProposal_GetHash e (snd ?u) \<in> K"
    using it by (simp add: hash_UpdateValid_p)
  from step [OF this] have t: "\<forall>it \<in> set ?tmp. P it"
    using Cons.prems(3)
      set_emplace [of "CBudgetProposal_GetHash e (snd ?u)" "CBudgetProposal_copy (snd ?u)" tmp]
    by auto
  show ?case
    using Cons.IH [OF rest Cons.prems(3)] Cons.IH [OF rest t]
    by (simp add: Let_def)
qed

lemma CheckAndRemove_frame: "frame e m (CheckAndRemove e m)"
proof -
  let ?b = "CheckAndRemove_budgets e (nBestHeight m) (map fst (mapFinalizedBudgets m)) m []"
  let ?m1 = "(fst ?b)\<lparr>mapFinalizedBudgets := snd ?b\<rparr>"
  let ?ps = "CheckAndRemove_proposals e (nBestHeight m) (mapProposals ?m1) []"
  have res: "CheckAndRemove e m = ?m1\<lparr>mapProposals := ?ps\<rparr>"
    by (simp add: CheckAndRemove_def Let_def)
  have seen: "mapSeenProposals (CheckAndRemove e m) = mapSeenProposals m"
    "mapSeenFinalizedBudgets (CheckAndRemove e m) = mapSeenFinalizedBudgets m"
    by (simp_all add: res CheckAndRemove_budgets_seen)
  have keyed: "keyed_by_hash e (CheckAndRemove e m) \<and>
        fst ` set (mapProposals (CheckAndRemove e m)) \<subseteq> fst ` set (mapProposals m) \<and>
        fst ` set (mapFinalizedBudgets (CheckAndRemove e m)) \<subseteq> fst ` set (mapFinalizedBudgets m)"
    if k: "keyed_by_hash e m"
  proof -
    let ?P = "\<lambda>it. fst it = CFinalizedBudget_GetHash e (snd it) \<and>
                fst it \<in> fst ` set (mapFinalizedBudgets m)"
    have "frame e m (fst ?b) \<and> (\<forall>it \<in> set (snd ?b). ?P it)"
      by (rule CheckAndRemove_budgets_inv [OF k subset_refl]) (simp_all add: hash_copy_fb)
    then have fb: "frame e m (fst ?b)" and b: "\<forall>it \<in> set (snd ?b). ?P it"
      by blast+
    from frameD [OF fb k] have kp: "\<forall>it \<in> set (mapProposals ?m1). fst it = CBudgetProposal_GetHash e (snd it)"
      and sp: "fst ` set (mapProposals ?m1) \<subseteq> fst ` set (mapProposals m)"
      by (simp_all add: keyed_by_hash_def list_all_iff)
    let ?Q = "\<lambda>it. fst it = CBudgetProposal_GetHash e (snd it) \<and>
                fst it \<in> fst ` set (mapProposals m)"
    have p: "\<forall>it \<in> set ?ps. ?Q it"
      by (rule CheckAndRemove_proposals_inv [OF kp sp]) (simp_all add: hash_copy_p)
    from p have p1: "\<forall>it \<in> set ?ps. fst it = CBudgetProposal_GetHash e (snd it)"
      by blast
    from p have p2: "fst ` set ?ps \<subseteq> fst ` set (mapProposals m)"
      by blast
    from b have b1: "\<forall>it \<in> set (snd ?b). fst it = CFinalizedBudget_GetHash e (snd it)"
      by blast
    from b have b2: "fst ` set (snd ?b) \<subseteq> fst ` set (mapFinalizedBudgets m)"
      by blast
    show ?thesis
      unfolding res keyed_by_hash_def list_all_iff using p1 p2 b1 b2 by simp
  qed
  show ?thesis
    unfolding frame_def using seen keyed by blast
qed

lemma frame_inv:
  assumes "frame e m m'" and "keyed_by_hash e m" and "seen_superset m"
  shows "keyed_by_hash e m' \<and> seen_superset m'"
proof -
  from frameD [OF assms(1,2)] frame_seen [OF assms(1)] assms(3)
  show ?thesis unfolding seen_superset_def by (simp, meson order_trans)
qed

lemma inv_same:
  assumes "keyed_by_hash e m \<and> seen_superset m"
    and "mapProposals m' = mapProposals m" and "mapFinalizedBudgets m' = mapFinalizedBudgets m"
    and "mapSeenProposals m' = mapSeenProposals m"
    and "mapSeenFinalizedBudgets m' = mapSeenFinalizedBudgets m"
  shows "keyed_by_hash e m' \<and> seen_superset m'"
  using assms by (simp add: keyed_by_hash_def seen_superset_def)

lemma hash_SetBudgetProposalsStr:
  "CFinalizedBudget_GetHash e (SetBudgetProposalsStr e' m fb) = CFinalizedBudget_GetHash e fb"
  by (simp add: SetBudgetProposalsStr_def CFinalizedBudget_GetHash_def)

lemma subset_insert_mono: "A \<subseteq> insert k B \<Longrightarrow> B \<subseteq> C \<Longrightarrow> A \<subseteq> insert k C"
  by blast

lemma keyed_emplace:
  assumes "list_all (\<lambda>it. fst it = h (snd it)) xs" and "k = h v"
  shows "list_all (\<lambda>it. fst it = h (snd it)) (emplace k v xs)"
  using assms set_emplace [of k v xs] unfolding list_all_iff by auto

lemma AddFinalizedBudget_inv:
  assumes "keyed_by_hash e m"
  shows "keyed_by_hash e (fst (snd (AddFinalizedBudget e m fb)))"
    and "fst ` set (mapFinalizedBudgets (fst (snd (AddFinalizedBudget e m fb))))
           \<subseteq> insert (CFinalizedBudget_GetHash e fb) (fst ` set (mapFinalizedBudgets m))"
    and "mapProposals (fst (snd (AddFinalizedBudget e m fb))) = mapProposals m"
    and "mapSeenProposals (fst (snd (AddFinalizedBudget e m fb))) = mapSeenProposals m"
    and "mapSeenFinalizedBudgets (fst (snd (AddFinalizedBudget e m fb))) = mapSeenFinalizedBudgets m"
proof -
  let ?u = "CFinalizedBudget_UpdateValid e fb (nBestHeight m) True"
  let ?c = "CFinalizedBudget_copy (SetBudgetProposalsStr e m (snd ?u))"
  have h: "CFinalizedBudget_GetHash e fb = CFinalizedBudget_GetHash e ?c"
    by (simp add: hash_copy_fb hash_SetBudgetProposalsStr hash_UpdateValid_fb)
  from assms have k: "list_all (\<lambda>it. fst it = CFinalizedBudget_GetHash e (snd it)) (mapFinalizedBudgets m)"
    by (simp add: keyed_by_hash_def)
  show "keyed_by_hash e (fst (snd (AddFinalizedBudget e m fb)))"
    using assms keyed_emplace [OF k h]
    by (simp add: AddFinalizedBudget_def Let_def keyed_by_hash_def)
  show "fst ` set (mapFinalizedBudgets (fst (snd (AddFinalizedBudget e m fb))))
           \<subseteq> insert (CFinalizedBudget_GetHash e fb) (fst ` set (mapFinalizedBudgets m))"
    by (auto simp: AddFinalizedBudget_def Let_def keys_emplace)
  show "mapProposals (fst (snd (AddFinalizedBudget e m fb))) = mapProposals m"
    "mapSeenProposals (fst (snd (AddFinalizedBudget e m fb))) = mapSeenProposals m"
    "mapSeenFinalizedBudgets (fst (snd (AddFinalizedBudget e m fb))) = mapSeenFinalizedBudgets m"
    by (simp_all add: AddFinalizedBudget_def Let_def)
qed

lemma AddProposal_inv:
  assumes "keyed_by_hash e m"
  shows "keyed_by_hash e (fst (snd (AddProposal e m p)))"
    and "fst ` set (mapProposals (fst (snd (AddProposal e m p))))
           \<subseteq> insert (CBudgetProposal_GetHash e p) (fst ` set (mapProposals m))"
    and "mapFinalizedBudgets (fst (snd (AddProposal e m p))) = mapFinalizedBudgets m"
    and "mapSeenProposals (fst (snd (AddProposal e m p))) = mapSeenProposals m"
    and "mapSeenFinalizedBudgets (fst (snd (AddProposal e m p))) = mapSeenFinalizedBudgets m"
proof -
  let ?u = "CBudgetProposal_UpdateValid e p (nBestHeight m) True"
  let ?c = "CBudgetProposal_copy (snd ?u)"
  have h: "CBudgetProposal_GetHash e (snd ?u) = CBudgetProposal_GetHash e ?c"
    by (simp add: hash_copy_p)
  from assms have k: "list_all (\<lambda>it. fst it = CBudgetProposal_GetHash e (snd it)) (mapProposals m)"
    by (simp add: keyed_by_hash_def)
  show "keyed_by_hash e (fst (snd (AddProposal e m p)))"
    using assms keyed_emplace [OF k h]
    by (simp add: AddProposal_def Let_def keyed_by_hash_def)
  show "fst ` set (mapProposals (fst (snd (AddProposal e m p))))
           \<subseteq> insert (CBudgetProposal_GetHash e p) (fst ` set (mapProposals m))"
    by (auto simp: AddProposal_def Let_def keys_emplace hash_UpdateValid_p)
  show "mapFinalizedBudgets (fst (snd (AddProposal e m p))) = mapFinalizedBudgets m"
    "mapSeenProposals (fst (snd (AddProposal e m p))) = mapSeenProposals m"
    "mapSeenFinalizedBudgets (fst (snd (AddProposal e m p))) = mapSeenFinalizedBudgets m"
    by (simp_all add: AddProposal_def Let_def)
qed

lemma AddSeenFinalizedBudget_then_Add:
  assumes "keyed_by_hash e m \<and> seen_superset m"
    and "CFinalizedBudget_GetHash e fb = CFinalizedBudget_GetHash e b"
  shows "keyed_by_hash e (fst (snd (AddFinalizedBudget e (AddSeenFinalizedBudget e m b) fb))) \<and>
         seen_superset (fst (snd (AddFinalizedBudget e (AddSeenFinalizedBudget e m b) fb)))"
proof -
  let ?m1 = "AddSeenFinalizedBudget e m b"
  have k1: "keyed_by_hash e ?m1"
    using assms(1) by (simp add: AddSeenFinalizedBudget_def keyed_by_hash_def)
  have act: "mapProposals ?m1 = mapProposals m" "mapFinalizedBudgets ?m1 = mapFinalizedBudgets m"
    "mapSeenProposals ?m1 = mapSeenProposals m"
    by (simp_all add: AddSeenFinalizedBudget_def)
  have seen: "fst ` set (mapSeenFinalizedBudgets ?m1) =
      insert (CFinalizedBudget_GetHash e b) (fst ` set (mapSeenFinalizedBudgets m))"
    by (simp add: AddSeenFinalizedBudget_def keys_emplace)
  note a = AddFinalizedBudget_inv [OF k1, of fb]
  from assms(1) have sup: "fst ` set (mapProposals m) \<subseteq> fst ` set (mapSeenProposals m)"
    "fst ` set (mapFinalizedBudgets m) \<subseteq> fst ` set (mapSeenFinalizedBudgets m)"
    by (simp_all add: seen_superset_def)
  have "fst ` set (mapFinalizedBudgets (fst (snd (AddFinalizedBudget e ?m1 fb))))
          \<subseteq> insert (CFinalizedBudget_GetHash e b) (fst ` set (mapSeenFinalizedBudgets m))"
    using subset_insert_mono [OF a(2) [unfolded act assms(2)] sup(2)] .
  with a(1,3,4,5) sup(1) act seen show ?thesis
    unfolding seen_superset_def by simp
qed

lemma AddSeenProposal_then_Add:
  assumes "keyed_by_hash e m \<and> seen_superset m"
    and "CBudgetProposal_GetHash e p = CBudgetProposal_GetHash e b"
  shows "keyed_by_hash e (fst (snd (AddProposal e (AddSeenProposal e m b) p))) \<and>
         seen_superset (fst (snd (AddProposal e (AddSeenProposal e m b) p)))"
proof -
  let ?m1 = "AddSeenProposal e m b"
  have k1: "keyed_by_hash e ?m1"
    using assms(1) by (simp add: AddSeenProposal_def keyed_by_hash_def)
  have act: "mapProposals ?m1 = mapProposals m" "mapFinalizedBudgets ?m1 = mapFinalizedBudgets m"
    "mapSeenFinalizedBudgets ?m1 = mapSeenFinalizedBudgets m"
    by (simp_all add: AddSeenProposal_def)
  have seen: "fst ` set (mapSeenProposals ?m1) =
      insert (CBudgetProposal_GetHash e b) (fst ` set (mapSeenProposals m))"
    by (simp add: AddSeenProposal_def keys_emplace)
  note a = AddProposal_inv [OF k1, of p]
  from assms(1) have sup: "fst ` set (mapProposals m) \<subseteq> fst ` set (mapSeenProposals m)"
    "fst ` set (mapFinalizedBudgets m) \<subseteq> fst ` set (mapSeenFinalizedBudgets m)"
    by (simp_all add: seen_superset_def)
  have "fst ` set (mapProposals (fst (snd (AddProposal e ?m1 p))))
          \<subseteq> insert (CBudgetProposal_GetHash e b) (fst ` set (mapSeenProposals m))"
    using subset_insert_mono [OF a(2) [unfolded act assms(2)] sup(1)] .
  with a(1,3,4,5) sup(2) act seen show ?thesis
    unfolding seen_superset_def by simp
qed

lemma AddSeen_inv:
  assumes "keyed_by_hash e m \<and> seen_superset m"
  shows "keyed_by_hash e (AddSeenProposal e m p) \<and> seen_superset (AddSeenProposal e m p)"
    and "keyed_by_hash e (AddSeenFinalizedBudget e m fb) \<and> seen_superset (AddSeenFinalizedBudget e m fb)"
    and "keyed_by_hash e (AddSeenProposalVote e m v) \<and> seen_superset (AddSeenProposalVote e m v)"
    and "keyed_by_hash e (AddSeenFinalizedBudgetVote e m fv) \<and>
         seen_superset (AddSeenFinalizedBudgetVote e m fv)"
  using assms
  by (auto simp: AddSeenProposal_def AddSeenFinalizedBudget_def AddSeenProposalVote_def
      AddSeenFinalizedBudgetVote_def keyed_by_hash_def seen_superset_def keys_emplace)

lemma frame_inv':
  assumes "keyed_by_hash e m \<and> seen_superset m" and "frame e m m'"
  shows "keyed_by_hash e m' \<and> seen_superset m'"
  using frame_inv [OF assms(2)] assms(1) by blast

lemma SubmitFinalBudget_cases:
  assumes "P m" and "P (snd (GetBudget e m))"
    and "\<And>m' x. P m' \<Longrightarrow> P (m'\<lparr>nSubmittedHeight := x\<rparr>)"
    and "\<And>m' x. P m' \<Longrightarrow> P (m'\<lparr>mapCollateralTxids := x\<rparr>)"
    and "\<And>m' b. P m' \<Longrightarrow> P (fst (snd (AddFinalizedBudget e (AddSeenFinalizedBudget e m' b) b)))"
  shows "P (SubmitFinalBudget e m)"
  unfolding SubmitFinalBudget_def Let_def
  using assms by (auto split: option.splits)

lemma SubmitFinalBudget_inv:
  assumes "keyed_by_hash e m \<and> seen_superset m"
  shows "keyed_by_hash e (SubmitFinalBudget e m) \<and> seen_superset (SubmitFinalBudget e m)"
proof (rule SubmitFinalBudget_cases [where P = "\<lambda>m. keyed_by_hash e m \<and> seen_superset m"])
  show "keyed_by_hash e m \<and> seen_superset m" by (rule assms)
  show "keyed_by_hash e (snd (GetBudget e m)) \<and> seen_superset (snd (GetBudget e m))"
    by (rule frame_inv' [OF assms GetBudget_frame])
  show "keyed_by_hash e (m'\<lparr>nSubmittedHeight := x\<rparr>) \<and> seen_superset (m'\<lparr>nSubmittedHeight := x\<rparr>)"
    if "keyed_by_hash e m' \<and> seen_superset m'" for m' x
    by (rule inv_same [OF that]) simp_all
  show "keyed_by_hash e (m'\<lparr>mapCollateralTxids := x\<rparr>) \<and> seen_superset (m'\<lparr>mapCollateralTxids := x\<rparr>)"
    if "keyed_by_hash e m' \<and> seen_superset m'" for m' x
    by (rule inv_same [OF that]) simp_all
  show "keyed_by_hash e (fst (snd (AddFinalizedBudget e (AddSeenFinalizedBudget e m' b) b))) \<and>
        seen_superset (fst (snd (AddFinalizedBudget e (AddSeenFinalizedBudget e m' b) b)))"
    if "keyed_by_hash e m' \<and> seen_superset m'" for m' b
    by (rule AddSeenFinalizedBudget_then_Add [OF that refl])
qed

lemma ProcessMessage_cases:
  assumes "P m"
    and "\<And>m' x. P m' \<Longrightarrow> P (m'\<lparr>vecImmatureProposals := x\<rparr>)"
    and "\<And>m' x. P m' \<Longrightarrow> P (m'\<lparr>vecImmatureFinalizedBudgets := x\<rparr>)"
    and "\<And>m' b. P m' \<Longrightarrow> P (AddSeenProposal e m' b)"
    and "\<And>m' b. P m' \<Longrightarrow> P (AddSeenFinalizedBudget e m' b)"
    and "\<And>m' v. P m' \<Longrightarrow> P (AddSeenProposalVote e m' v)"
    and "\<And>m' v. P m' \<Longrightarrow> P (AddSeenFinalizedBudgetVote e m' v)"
    and "\<And>m' b h c. P m' \<Longrightarrow>
           P (fst (snd (AddProposal e (AddSeenProposal e m' b)
                          (CBudgetProposal_copy (snd (CBudgetProposal_UpdateValid e b h c))))))"
    and "\<And>m' b h c. P m' \<Longrightarrow>
           P (fst (snd (AddFinalizedBudget e (AddSeenFinalizedBudget e m' b)
                          (CFinalizedBudget_copy (snd (CFinalizedBudget_UpdateValid e b h c))))))"
    and "\<And>m'. P m' \<Longrightarrow> P (CheckOrphanVotes e m')"
    and "\<And>m' v pfrom err. P m' \<Longrightarrow> P (snd (snd (UpdateProposal e m' v pfrom err)))"
    and "\<And>m' v pfrom err. P m' \<Longrightarrow> P (snd (snd (UpdateFinalizedBudget e m' v pfrom err)))"
  shows "P (ProcessMessage e m msg)"
  unfolding ProcessMessage_def Let_def
  using assms by (auto split: message.splits)

lemma ProcessMessage_inv:
  assumes "keyed_by_hash e m \<and> seen_superset m"
  shows "keyed_by_hash e (ProcessMessage e m msg) \<and> seen_superset (ProcessMessage e m msg)"
proof (rule ProcessMessage_cases [where P = "\<lambda>m. keyed_by_hash e m \<and> seen_superset m"])
  show "keyed_by_hash e m \<and> seen_superset m" by (rule assms)
  show "keyed_by_hash e (m'\<lparr>vecImmatureProposals := x\<rparr>) \<and> seen_superset (m'\<lparr>vecImmatureProposals := x\<rparr>)"
    if "keyed_by_hash e m' \<and> seen_superset m'" for m' x
    by (rule inv_same [OF that]) simp_all
  show "keyed_by_hash e (m'\<lparr>vecImmatureFinalizedBudgets := x\<rparr>) \<and>
        seen_superset (m'\<lparr>vecImmatureFinalizedBudgets := x\<rparr>)"
    if "keyed_by_hash e m' \<and> seen_superset m'" for m' x
    by (rule inv_same [OF that]) simp_all
  show "keyed_by_hash e (AddSeenProposal e m' b) \<and> seen_superset (AddSeenProposal e m' b)"
    if "keyed_by_hash e m' \<and> seen_superset m'" for m' b
    by (rule AddSeen_inv [OF that])
  show "keyed_by_hash e (AddSeenFinalizedBudget e m' b) \<and> seen_superset (AddSeenFinalizedBudget e m' b)"
    if "keyed_by_hash e m' \<and> seen_superset m'" for m' b
    by (rule AddSeen_inv [OF that])
  show "keyed_by_hash e (AddSeenProposalVote e m' v) \<and> seen_superset (AddSeenProposalVote e m' v)"
    if "keyed_by_hash e m' \<and> seen_superset m'" for m' v
    by (rule AddSeen_inv [OF that])
  show "keyed_by_hash e (AddSeenFinalizedBudgetVote e m' v) \<and>
        seen_superset (AddSeenFinalizedBudgetVote e m' v)"
    if "keyed_by_hash e m' \<and> seen_superset m'" for m' v
    by (rule AddSeen_inv [OF that])
  show "keyed_by_hash e (fst (snd (AddProposal e (AddSeenProposal e m' b)
                          (CBudgetProposal_copy (snd (CBudgetProposal_UpdateValid e b h c)))))) \<and>
        seen_superset (fst (snd (AddProposal e (AddSeenProposal e m' b)
                          (CBudgetProposal_copy (snd (CBudgetProposal_UpdateValid e b h c))))))"
    if "keyed_by_hash e m' \<and> seen_superset m'" for m' b h c
    by (rule AddSeenProposal_then_Add [OF that]) (simp add: hash_copy_p hash_UpdateValid_p)
  show "keyed_by_hash e (fst (snd (AddFinalizedBudget e (AddSeenFinalizedBudget e m' b)
                          (CFinalizedBudget_copy (snd (CFinalizedBudget_UpdateValid e b h c)))))) \<and>
        seen_superset (fst (snd (AddFinalizedBudget e (AddSeenFinalizedBudget e m' b)
                          (CFinalizedBudget_copy (snd (CFinalizedBudget_UpdateValid e b h c))))))"
    if "keyed_by_hash e m' \<and> seen_superset m'" for m' b h c
    by (rule AddSeenFinalizedBudget_then_Add [OF that]) (simp add: hash_copy_fb hash_UpdateValid_fb)
  show "keyed_by_hash e (CheckOrphanVotes e m') \<and> seen_superset (CheckOrphanVotes e m')"
    if "keyed_by_hash e m' \<and> seen_superset m'" for m'
    by (rule frame_inv' [OF that CheckOrphanVotes_frame])
  show "keyed_by_hash e (snd (snd (UpdateProposal e m' v pfrom err))) \<and>
        seen_superset (snd (snd (UpdateProposal e m' v pfrom err)))"
    if "keyed_by_hash e m' \<and> seen_superset m'" for m' v pfrom err
    by (rule frame_inv' [OF that UpdateProposal_frame])
  show "keyed_by_hash e (snd (snd (UpdateFinalizedBudget e m' v pfrom err))) \<and>
        seen_superset (snd (snd (UpdateFinalizedBudget e m' v pfrom err)))"
    if "keyed_by_hash e m' \<and> seen_superset m'" for m' v pfrom err
    by (rule frame_inv' [OF that UpdateFinalizedBudget_frame])
qed

lemma mgrR_GetBudget: "GetBudget env_chain (mgrR_checked n) = ([], mgrR_checked n)"
  by (simp add: GetBudget_def mgrR_checked_def ex_manager_def Let_def std_sort_def)

lemma mgrR_CheckAndVote: "CheckAndVote env_chain (mgrR n 1590000000) 86401 = mgrR_checked (Suc n)"
proof -
  have e: "fMasterNode env_chain" "activeMasternode_vin env_chain = Some \<lparr>op_hash = 99, op_n = 0\<rparr>"
    "rand env_chain (nRandCalls (mgrR n 1590000000)) = 0" "strBudgetMode env_chain = ''auto''"
    by (simp_all add: env_chain_def env0_def)
  have self: "map_of (mapFinalizedBudgets (mgrR n 1590000000)) 86401 = Some (budgetC 1590000000)"
    by (simp add: mgrR_def)
  have latch: "\<not> fAutoChecked (budgetC 1590000000)"
    by (simp add: budgetC_def ex_budget_def)
  have m2: "(mgrR n 1590000000)\<lparr>nRandCalls := Suc (nRandCalls (mgrR n 1590000000)),
              mapFinalizedBudgets := assign 86401 ((budgetC 1590000000)\<lparr>fAutoChecked := True\<rparr>)
                (mapFinalizedBudgets (mgrR n 1590000000))\<rparr> =
            mgrR_checked (Suc n)"
    by (simp add: mgrR_def mgrR_checked_def)
  show ?thesis
    unfolding CheckAndVote_def self option.case Let_def
    using latch by (simp add: e m2 mgrR_GetBudget std_sort_def)
qed

lemma mgrR_CheckAndRemove: "CheckAndRemove env_chain (mgrR n t) = mgrR (Suc n) 1590000000"
proof -
  have keys: "map fst (mapFinalizedBudgets (mgrR n t)) = [86401]"
    "map_of (mapFinalizedBudgets (mgrR n t)) 86401 = Some (budgetC t)"
    "nBestHeight (mgrR n t) = 86408"
    by (simp_all add: mgrR_def ex_manager_def)
  have m1: "(mgrR n t)\<lparr>mapFinalizedBudgets := assign 86401 (budgetC 1590000000) (mapFinalizedBudgets (mgrR n t))\<rparr> =
            mgrR n 1590000000"
    by (simp add: mgrR_def)
  have after: "map_of (mapFinalizedBudgets (mgrR_checked (Suc n))) 86401 =
               Some ((budgetC 1590000000)\<lparr>fAutoChecked := True\<rparr>)"
    by (simp add: mgrR_checked_def)
  have copy: "CFinalizedBudget_copy ((budgetC 1590000000)\<lparr>fAutoChecked := True\<rparr>) = budgetC 1590000000"
    by (simp add: CFinalizedBudget_copy_def budgetC_def ex_budget_def)
  have hash: "CFinalizedBudget_GetHash env_chain ((budgetC 1590000000)\<lparr>fAutoChecked := True\<rparr>) = 86401"
    by (simp add: CFinalizedBudget_GetHash_def budgetC_def ex_budget_def env_chain_def env0_def)
  have loop: "CheckAndRemove_budgets env_chain 86408 [86401] (mgrR n t) [] =
              (mgrR_checked (Suc n), [(86401, budgetC 1590000000)])"
    by (simp add: keys budgetC_valid m1 mgrR_CheckAndVote after copy hash emplace_def count_def)
  have fin: "(mgrR_checked (Suc n))\<lparr>mapFinalizedBudgets := [(86401, budgetC 1590000000)], mapProposals := []\<rparr> =
             mgrR (Suc n) 1590000000"
    by (simp add: mgrR_checked_def mgrR_def ex_manager_def)
  show ?thesis
    unfolding CheckAndRemove_def Let_def keys loop
    by (simp add: fin) (simp add: mgrR_checked_def mgrR_def ex_manager_def)
qed

lemma mgrC_reset: "ResetSync (ClearSeen ((mgrC 0 0)\<lparr>nBestHeight := 86408, nRandCalls := Suc 0\<rparr>)) = mgrR 1 0"
  by (simp add: ResetSync_def ClearSeen_def SetSynced_def mgrC_def mgrR_def ex_manager_def)

lemma mgrR_MarkSynced: "MarkSynced (mgrR n t) = mgrR n t"
  by (simp add: MarkSynced_def SetSynced_def mgrR_def ex_manager_def)

lemma budgetC_clean: "CFinalizedBudget_CleanAndRemove env_chain (budgetC t) = budgetC t"
  by (simp add: CFinalizedBudget_CleanAndRemove_def budgetC_def ex_budget_def ex_vote_def
      env_chain_def env0_def)

lemma mgrC_NewBlock: "NewBlock env_chain (mgrC 0 0) 86408 = mgrR 2 1590000000"
proof -
  have e: "masternodeSync_PastBudget env_chain" "strBudgetMode env_chain = ''auto''"
    "masternodeSync_IsSynced env_chain" "rand env_chain n = 0"
    "TRY_LOCK_cs_proposals env_chain" "TRY_LOCK_cs_budgets env_chain" for n
    by (simp_all add: env_chain_def env0_def)
  have h: "nRandCalls (mgrC 0 0) = 0"
    by (simp add: mgrC_def)
  have s: "(86408::int) smod 14 = 0"
    by (simp add: signed_modulo_int_def)
  have r: "mapProposals (mgrR n t) = []" "vecImmatureProposals (mgrR n t) = []"
    "vecImmatureFinalizedBudgets (mgrR n t) = []" "askedForSourceProposalOrBudget (mgrR n t) = []"
    "mapFinalizedBudgets (mgrR n t) = [(86401, budgetC t)]" for n t
    by (simp_all add: mgrR_def ex_manager_def)
  have same: "(mgrR n t)\<lparr>askedForSourceProposalOrBudget := [], mapProposals := [],
                vecImmatureProposals := [], mapFinalizedBudgets := [(86401, budgetC t)],
                vecImmatureFinalizedBudgets := []\<rparr> = mgrR n t" for n t
    by (simp add: mgrR_def ex_manager_def)
  show ?thesis
    unfolding NewBlock_def Let_def
    by (simp add: e s h mgrC_reset mgrR_MarkSynced mgrR_CheckAndRemove r budgetC_clean same
          numeral_2_eq_2)
qed

lemma budgetC_copy: "CFinalizedBudget_copy (budgetC t) = budgetC t"
  by (simp add: CFinalizedBudget_copy_def budgetC_def ex_budget_def)

lemma empty_FINALBUDGET:
  "map fst (mapFinalizedBudgets (ProcessMessage env_chain (ex_manager [] 86408) (FINALBUDGET (budgetC 0)))) = [86401] \<and>
   map fst (mapSeenFinalizedBudgets (ProcessMessage env_chain (ex_manager [] 86408) (FINALBUDGET (budgetC 0)))) = [86401]"
proof -
  have e: "\<not> fLiteMode env_chain" "masternodeSync_IsBlockchainSynced env_chain"
    by (simp_all add: env_chain_def env0_def)
  have f: "fb_nFeeTXHash (budgetC t) = 7" "fb_nTime (budgetC t) = t" for t
    by (simp_all add: budgetC_def ex_budget_def)
  have b1: "(budgetC 0)\<lparr>fb_nTime := 1590000000\<rparr> = budgetC 1590000000"
    by (simp add: budgetC_def)
  have m: "nBestHeight (ex_manager [] 86408) = 86408"
    "mapSeenFinalizedBudgets (ex_manager [] 86408) = []"
    "mapFinalizedBudgets (ex_manager [] 86408) = []"
    by (simp_all add: ex_manager_def)
  have hs: "CFinalizedBudget_GetHash env_chain (SetBudgetProposalsStr env_chain m' (budgetC t)) = 86401" for m' t
    by (simp add: SetBudgetProposalsStr_def CFinalizedBudget_GetHash_def budgetC_def ex_budget_def
        env_chain_def env0_def)
  have add: "AddFinalizedBudget env_chain
               (AddSeenFinalizedBudget env_chain (ex_manager [] 86408) (budgetC 1590000000))
               (budgetC 1590000000) =
             (True,
              (ex_manager [] 86408)\<lparr>mapSeenFinalizedBudgets := [(86401, budgetC 1590000000)],
                 mapFinalizedBudgets := [(86401, CFinalizedBudget_copy
                    (SetBudgetProposalsStr env_chain
                       (AddSeenFinalizedBudget env_chain (ex_manager [] 86408) (budgetC 1590000000))
                       (budgetC 1590000000)))]\<rparr>,
              SetBudgetProposalsStr env_chain
                (AddSeenFinalizedBudget env_chain (ex_manager [] 86408) (budgetC 1590000000))
                (budgetC 1590000000))"
    unfolding AddFinalizedBudget_def Let_def budgetC_hash
    by (simp add: AddSeenFinalizedBudget_def m budgetC_hash budgetC_copy budgetC_valid
        emplace_def count_def)
  have orph: "CheckOrphanVotes env_chain ((ex_manager [] 86408)\<lparr>mapSeenFinalizedBudgets := s,
                 mapFinalizedBudgets := a\<rparr>) =
              (ex_manager [] 86408)\<lparr>mapSeenFinalizedBudgets := s, mapFinalizedBudgets := a\<rparr>" for s a
    by (simp add: CheckOrphanVotes_def ex_manager_def)
  show ?thesis
    unfolding ProcessMessage_def Let_def
    by (simp add: e HaveSeenFinalizedBudget_def m count_def budgetC_hash f budgetC_collateral b1
        budgetC_valid budgetC_copy add orph)
qed

text \<open>
  C9. The seen maps are to hold a key for every key of the active maps, in every state of
  the manager. Stated on the steps of the manager: from a state where every active item is
  stored under its hash and the seen keys include the active keys, a peer message
  (\<open>ProcessMessage\<close>), the local submission (\<open>SubmitFinalBudget\<close>) and the periodic
  maintenance (\<open>CheckAndRemove\<close>) each lead to such a state again. The new-block handler
  is left out: its sync-reset step clears the seen maps and keeps the active maps.
\<close>

theorem seen_superset_preserved:
  assumes "keyed_by_hash e m" and "seen_superset m"
  shows "(keyed_by_hash e (ProcessMessage e m msg) \<and> seen_superset (ProcessMessage e m msg)) \<and>
         (keyed_by_hash e (SubmitFinalBudget e m) \<and> seen_superset (SubmitFinalBudget e m)) \<and>
         (keyed_by_hash e (CheckAndRemove e m) \<and> seen_superset (CheckAndRemove e m))"
proof -
  from assms have i: "keyed_by_hash e m \<and> seen_superset m" by simp
  show ?thesis
    using ProcessMessage_inv [OF i, of msg] SubmitFinalBudget_inv [OF i]
      frame_inv' [OF i CheckAndRemove_frame]
    by blast
qed

theorem seen_superset_preserved_witness:
  "keyed_by_hash env_chain (ex_manager [] 86408) \<and> seen_superset (ex_manager [] 86408) \<and>
   map fst (mapFinalizedBudgets
     (ProcessMessage env_chain (ex_manager [] 86408) (FINALBUDGET (budgetC 0)))) = [86401] \<and>
   map fst (mapSeenFinalizedBudgets
     (ProcessMessage env_chain (ex_manager [] 86408) (FINALBUDGET (budgetC 0)))) = [86401] \<and>
   seen_superset (ProcessMessage env_chain (ex_manager [] 86408) (FINALBUDGET (budgetC 0))) \<and>
   seen_superset (SubmitFinalBudget env_chain (ex_manager [] 86408)) \<and>
   seen_superset (CheckAndRemove env_chain (ex_manager [] 86408))"
proof -
  have k: "keyed_by_hash env_chain (ex_manager [] 86408)"
    by (simp add: keyed_by_hash_def ex_manager_def)
  have s: "seen_superset (ex_manager [] 86408)"
    by (simp add: seen_superset_def ex_manager_def)
  show ?thesis
    using seen_superset_preserved [OF k s, of "FINALBUDGET (budgetC 0)"] k s empty_FINALBUDGET
    by blast
qed

text \<open>
  The sync-reset step of \<open>NewBlock\<close>: at height 86408 (a multiple of 14), synced, with
  \<open>rand()\<close> returning 0, the handler clears the seen maps; the finalized budget stays in the
  active map, under a key that the seen map no longer has.
\<close>

theorem sync_reset_counterexample:
  "keyed_by_hash env_chain (mgrC 0 0) \<and> seen_superset (mgrC 0 0) \<and>
   map fst (mapFinalizedBudgets (NewBlock env_chain (mgrC 0 0) 86408)) = [86401] \<and>
   mapSeenFinalizedBudgets (NewBlock env_chain (mgrC 0 0) 86408) = [] \<and>
   \<not> seen_superset (NewBlock env_chain (mgrC 0 0) 86408)"
  unfolding mgrC_NewBlock
  by (simp add: keyed_by_hash_def seen_superset_def budgetC_hash mgrC_def mgrR_def ex_manager_def)

end
